theory Spec2Isabelle
  imports Complex_Main "HOL-Library.Multiset"
begin

section \<open>PLIP interaction detection: geometric primitives\<close>

text \<open>
  The program computes with IEEE doubles; the model computes with the reals, so rounding
  of the floating-point operations is not part of it. Python exceptions are values of
  the type \<open>py_error\<close>; a Python \<open>None\<close> result is \<open>None\<close>.
\<close>

datatype py_error = IndexError | UnboundLocalError | AttributeError | KeyError

type_synonym coords = "real \<times> real \<times> real"

text \<open>
  \<open>euclidean3d\<close> of supplemental.py on sequences of any length. The guard of the source
  is \<open>not len(v1) == 3 and len(v2) == 3\<close>, which Python reads as
  \<open>(not len(v1) == 3) and (len(v2) == 3)\<close>; in that case a notice is printed and
  \<open>None\<close> is returned. Otherwise the coordinates 0, 1 and 2 of both arguments are read,
  which raises IndexError when one of them is shorter than three.
\<close>

definition euclidean3d :: "real list \<Rightarrow> real list \<Rightarrow> py_error + real option" where
  "euclidean3d v1 v2 =
     (if length v1 \<noteq> 3 \<and> length v2 = 3 then Inr None
      else if length v1 < 3 \<or> length v2 < 3 then Inl IndexError
      else Inr (Some (sqrt ((v1 ! 0 - v2 ! 0) ^ 2 + (v1 ! 1 - v2 ! 1) ^ 2 + (v1 ! 2 - v2 ! 2) ^ 2))))"

text \<open>The same distance on coordinate triples, as every detector calls it.\<close>

fun dist3 :: "coords \<Rightarrow> coords \<Rightarrow> real" where
  "dist3 (x1, y1, z1) (x2, y2, z2) = sqrt ((x1 - x2) ^ 2 + (y1 - y2) ^ 2 + (z1 - z2) ^ 2)"

fun as_list :: "coords \<Rightarrow> real list" where
  "as_list (x, y, z) = [x, y, z]"

text \<open>
  \<open>vector p1 p2\<close> is the vector from p1 to p2. \<open>vecangle\<close> returns 0 for equal
  arguments and otherwise the arc cosine, in degrees, of the normalised dot product
  rounded to ten decimals (Python 2 rounds halves away from zero). For a vector of
  length zero the source divides by zero and obtains nan; the model has the value of
  HOL's total division there, and no theorem below depends on it.
\<close>

fun vector :: "coords \<Rightarrow> coords \<Rightarrow> coords" where
  "vector (x1, y1, z1) (x2, y2, z2) = (x2 - x1, y2 - y1, z2 - z1)"

fun dot :: "coords \<Rightarrow> coords \<Rightarrow> real" where
  "dot (x1, y1, z1) (x2, y2, z2) = x1 * x2 + y1 * y2 + z1 * z2"

fun norm3 :: "coords \<Rightarrow> real" where
  "norm3 (x, y, z) = sqrt (x ^ 2 + y ^ 2 + z ^ 2)"

fun cross :: "coords \<Rightarrow> coords \<Rightarrow> coords" where
  "cross (x1, y1, z1) (x2, y2, z2) = (y1 * z2 - z1 * y2, z1 * x2 - x1 * z2, x1 * y2 - y1 * x2)"

fun vadd :: "coords \<Rightarrow> coords \<Rightarrow> coords" where
  "vadd (x1, y1, z1) (x2, y2, z2) = (x1 + x2, y1 + y2, z1 + z2)"

fun scale :: "real \<Rightarrow> coords \<Rightarrow> coords" where
  "scale k (x, y, z) = (k * x, k * y, k * z)"

definition round10 :: "real \<Rightarrow> real" where
  "round10 x =
     (if 0 \<le> x then of_int \<lfloor>x * 10 ^ 10 + 1 / 2\<rfloor> / 10 ^ 10
      else - (of_int \<lfloor>- x * 10 ^ 10 + 1 / 2\<rfloor> / 10 ^ 10))"

definition vecangle :: "coords \<Rightarrow> coords \<Rightarrow> real" where
  "vecangle v1 v2 =
     (if v1 = v2 then 0
      else arccos (round10 (dot v1 v2 / (norm3 v1 * norm3 v2))) * 180 / pi)"

text \<open>
  \<open>projection pnormal1 ppoint tpoint\<close>: the normal is turned towards the point to be
  projected, then the point is moved along it onto the plane. The sums
  \<open>pnormal1 + ppoint\<close> of the source are taken componentwise, as they are for the
  numpy arrays the ring normals are.
\<close>

definition projection :: "coords \<Rightarrow> coords \<Rightarrow> coords \<Rightarrow> coords" where
  "projection pnormal1 ppoint tpoint =
     (let pnormal2 = scale (- 1) pnormal1;
          d1 = dist3 tpoint (vadd pnormal1 ppoint);
          d2 = dist3 tpoint (vadd pnormal2 ppoint);
          pnormal = (if d1 < d2 then pnormal1 else pnormal2);
          sn = - dot pnormal (vector ppoint tpoint);
          sd = dot pnormal pnormal;
          sb = sn / sd
      in vadd tpoint (scale sb pnormal))"

text \<open>The smaller of the two angles between two normals, as pistacking and pication fold it.\<close>

definition fold_angle :: "real \<Rightarrow> real" where
  "fold_angle b = min b (if \<not> 180 - b < 0 then 180 - b else b)"

section \<open>Atoms, features and thresholds\<close>

text \<open>
  An atom as the detectors read it: its index, its coordinates, its type, its residue
  (absent for an atom without one), the side-chain property of the atom in its residue,
  and the coordinates of its bonded neighbours.
\<close>

record residue =
  res_name :: string
  res_num :: int
  res_chain :: string

record atom =
  idx :: nat
  coords :: coords
  atype :: string
  atom_residue :: "residue option"
  sidechain_flag :: bool
  neighbor_coords :: "coords list"

definition whichrestype :: "atom \<Rightarrow> string option" where
  "whichrestype a = map_option res_name (atom_residue a)"

definition whichresnumber :: "atom \<Rightarrow> int option" where
  "whichresnumber a = map_option res_num (atom_residue a)"

definition whichchain :: "atom \<Rightarrow> string option" where
  "whichchain a = map_option res_chain (atom_residue a)"

text \<open>
  \<open>atom.GetResidue().GetAtomProperty(atom, 8)\<close>: the side-chain flag, an AttributeError
  for an atom without a residue.
\<close>

definition sidechain_property :: "atom \<Rightarrow> py_error + bool" where
  "sidechain_property a =
     (case atom_residue a of None \<Rightarrow> Inl AttributeError | Some r \<Rightarrow> Inr (sidechain_flag a))"

text \<open>\<open>xs[0]\<close>, an IndexError on the empty list.\<close>

fun first :: "'a list \<Rightarrow> py_error + 'a" where
  "first [] = Inl IndexError"
| "first (x # xs) = Inr x"

text \<open>
  The thresholds of the module \<open>config\<close>, which is not among the source files: they are
  a parameter of every detector.
\<close>

record config =
  HYDROPH_DIST_MAX :: real
  HBOND_DIST_MAX :: real
  HBOND_DON_ANGLE_MIN :: real
  PISTACK_DIST_MAX :: real
  PISTACK_ANG_DEV :: real
  PISTACK_OFFSET_MAX :: real
  PICATION_DIST_MAX :: real
  SALTBRIDGE_DIST_MAX :: real
  HALOGEN_DIST_MAX :: real
  HALOGEN_ACC_ANGLE :: real
  HALOGEN_DON_ANGLE :: real
  HALOGEN_ANGLE_DEV :: real
  WATER_BRIDGE_MINDIST :: real
  WATER_BRIDGE_MAXDIST :: real
  WATER_BRIDGE_OMEGA_MIN :: real
  WATER_BRIDGE_OMEGA_MAX :: real
  WATER_BRIDGE_THETA_MIN :: real
  METAL_DIST_MAX :: real

text \<open>
  A loop that appends the records of each element and is left by the first exception.
\<close>

fun collect :: "('a \<Rightarrow> py_error + 'b list) \<Rightarrow> 'a list \<Rightarrow> py_error + 'b list" where
  "collect f [] = Inr []"
| "collect f (x # xs) =
     (case f x of
        Inl e \<Rightarrow> Inl e
      | Inr ys \<Rightarrow> (case collect f xs of Inl e \<Rightarrow> Inl e | Inr zs \<Rightarrow> Inr (ys @ zs)))"

section \<open>The detectors of detection.py\<close>

subsection \<open>Hydrophobic contacts\<close>

record hydroph_atom =
  hp_atom :: atom
  hp_orig_idx :: nat

record hydroph_interaction =
  hyd_bsatom :: atom
  hyd_bsatom_orig_idx :: nat
  hyd_ligatom :: atom
  hyd_ligatom_orig_idx :: nat
  hyd_distance :: real
  hyd_restype :: "string option"
  hyd_resnr :: "int option"
  hyd_reschain :: "string option"

definition hydrophobic_interactions ::
  "config \<Rightarrow> hydroph_atom list \<Rightarrow> hydroph_atom list \<Rightarrow> hydroph_interaction list" where
  "hydrophobic_interactions cfg atom_set_a atom_set_b =
     concat (map (\<lambda>(a, b).
        let e = dist3 (coords (hp_atom a)) (coords (hp_atom b))
        in if e < HYDROPH_DIST_MAX cfg
           then [\<lparr>hyd_bsatom = hp_atom a, hyd_bsatom_orig_idx = hp_orig_idx a,
                  hyd_ligatom = hp_atom b, hyd_ligatom_orig_idx = hp_orig_idx b,
                  hyd_distance = e, hyd_restype = whichrestype (hp_atom a),
                  hyd_resnr = whichresnumber (hp_atom a),
                  hyd_reschain = whichchain (hp_atom a)\<rparr>]
           else [])
       (List.product atom_set_a atom_set_b))"

subsection \<open>Hydrogen bonds\<close>

record hbond_acceptor =
  acc_a :: atom
  acc_a_orig_idx :: nat

record hbond_donor =
  don_d :: atom
  don_d_orig_idx :: nat
  don_h :: atom

record hbond =
  hb_a :: atom
  hb_a_orig_idx :: nat
  hb_d :: atom
  hb_d_orig_idx :: nat
  hb_h :: atom
  hb_distance_ah :: real
  hb_distance_ad :: real
  hb_angle :: real
  hb_type :: string
  hb_protisdon :: bool
  hb_resnr :: "int option"
  hb_restype :: "string option"
  hb_reschain :: "string option"
  hb_sidechain :: bool
  hb_atype :: string
  hb_dtype :: string

definition hbond_pair ::
  "config \<Rightarrow> bool \<Rightarrow> string \<Rightarrow> hbond_acceptor \<times> hbond_donor \<Rightarrow> py_error + hbond list" where
  "hbond_pair cfg protisdon typ = (\<lambda>(acc, don).
     if typ = ''strong'' then
       (let dist_ah = dist3 (coords (acc_a acc)) (coords (don_h don));
            dist_ad = dist3 (coords (acc_a acc)) (coords (don_d don))
        in if dist_ad < HBOND_DIST_MAX cfg then
             (let vec1 = vector (coords (don_h don)) (coords (don_d don));
                  vec2 = vector (coords (don_h don)) (coords (acc_a acc));
                  v = vecangle vec1 vec2
              in if v > HBOND_DON_ANGLE_MIN cfg then
                   (let protatom = (if protisdon then don_d don else acc_a acc)
                    in case sidechain_property protatom of
                         Inl e \<Rightarrow> Inl e
                       | Inr is_sidechain_hbond \<Rightarrow>
                           Inr [\<lparr>hb_a = acc_a acc, hb_a_orig_idx = acc_a_orig_idx acc,
                                 hb_d = don_d don, hb_d_orig_idx = don_d_orig_idx don,
                                 hb_h = don_h don, hb_distance_ah = dist_ah,
                                 hb_distance_ad = dist_ad, hb_angle = v, hb_type = typ,
                                 hb_protisdon = protisdon,
                                 hb_resnr = whichresnumber protatom,
                                 hb_restype = whichrestype protatom,
                                 hb_reschain = whichchain protatom,
                                 hb_sidechain = is_sidechain_hbond,
                                 hb_atype = atype (acc_a acc), hb_dtype = atype (don_d don)\<rparr>])
                 else Inr [])
           else Inr [])
     else Inr [])"

definition hbonds ::
  "config \<Rightarrow> hbond_acceptor list \<Rightarrow> hbond_donor list \<Rightarrow> bool \<Rightarrow> string \<Rightarrow> py_error + hbond list" where
  "hbonds cfg acceptors donor_pairs protisdon typ =
     collect (hbond_pair cfg protisdon typ) (List.product acceptors donor_pairs)"

subsection \<open>Pi-stacking\<close>

record ring =
  center :: coords
  normal :: coords
  ring_atoms :: "atom list"

record pistack =
  ps_proteinring :: ring
  ps_ligandring :: ring
  ps_distance :: real
  ps_angle :: real
  ps_offset :: real
  ps_type :: string
  ps_restype :: "string option"
  ps_resnr :: "int option"
  ps_reschain :: "string option"

definition pistack_pair :: "config \<Rightarrow> ring \<times> ring \<Rightarrow> py_error + pistack list" where
  "pistack_pair cfg = (\<lambda>(r, l).
     let d = dist3 (center r) (center l);
         b = vecangle (normal r) (normal l);
         a = fold_angle b;
         proj1 = projection (normal l) (center l) (center r);
         proj2 = projection (normal r) (center r) (center l);
         offset = min (dist3 proj1 (center l)) (dist3 proj2 (center r))
     in case first (ring_atoms r) of
          Inl e \<Rightarrow> Inl e
        | Inr r0 \<Rightarrow>
            (let contact = (\<lambda>t. \<lparr>ps_proteinring = r, ps_ligandring = l, ps_distance = d,
                                 ps_angle = a, ps_offset = offset, ps_type = t,
                                 ps_restype = whichrestype r0, ps_resnr = whichresnumber r0,
                                 ps_reschain = whichchain r0\<rparr>)
             in if d < PISTACK_DIST_MAX cfg then
                  Inr ((if 0 < a \<and> a < PISTACK_ANG_DEV cfg \<and> offset < PISTACK_OFFSET_MAX cfg
                        then [contact ''P''] else []) @
                       (if 90 - PISTACK_ANG_DEV cfg < a \<and> a < 90 + PISTACK_ANG_DEV cfg \<and>
                           offset < PISTACK_OFFSET_MAX cfg
                        then [contact ''T''] else []))
                else Inr []))"

definition pistacking :: "config \<Rightarrow> ring list \<Rightarrow> ring list \<Rightarrow> py_error + pistack list" where
  "pistacking cfg rings_bs rings_lig = collect (pistack_pair cfg) (List.product rings_bs rings_lig)"

subsection \<open>Pi-cation interactions\<close>

text \<open>
  A charge center. \<open>is_lcharge\<close> says that the feature is an \<open>lcharge\<close> tuple (the test
  \<open>type(p).__name__ == 'lcharge'\<close>); the residue fields are those the salt bridge
  detector reads from the protein side.
\<close>

record charge =
  ch_atoms :: "atom list"
  ch_center :: coords
  is_lcharge :: bool
  fgroup :: string
  ch_resnr :: "int option"
  ch_restype :: "string option"
  ch_reschain :: "string option"

record pication =
  pc_ring :: ring
  pc_charge :: charge
  pc_distance :: real
  pc_offset :: real
  pc_type :: string
  pc_restype :: "string option"
  pc_resnr :: "int option"
  pc_reschain :: "string option"
  pc_protcharged :: bool

definition pication_contact :: "ring \<Rightarrow> charge \<Rightarrow> real \<Rightarrow> real \<Rightarrow> atom \<Rightarrow> bool \<Rightarrow> pication" where
  "pication_contact rg p d offset res_atom protcharged =
     \<lparr>pc_ring = rg, pc_charge = p, pc_distance = d, pc_offset = offset, pc_type = ''regular'',
      pc_restype = whichrestype res_atom, pc_resnr = whichresnumber res_atom,
      pc_reschain = whichchain res_atom, pc_protcharged = protcharged\<rparr>"

text \<open>
  The inner loop of \<open>pication\<close>: the charge centers scanned for one ring. The \<open>break\<close>
  of the tertiary-amine branch leaves this loop, so the remaining charge centers are
  skipped for the ring at hand.
\<close>

fun pication_scan :: "config \<Rightarrow> bool \<Rightarrow> ring \<Rightarrow> charge list \<Rightarrow> py_error + pication list" where
  "pication_scan cfg protcharged rg [] = Inr []"
| "pication_scan cfg protcharged rg (p # ps) =
     (let d = dist3 (center rg) (ch_center p);
          proj = projection (normal rg) (center rg) (ch_center p);
          offset = dist3 proj (center rg)
      in if d < PICATION_DIST_MAX cfg \<and> offset < PISTACK_OFFSET_MAX cfg then
           (if is_lcharge p \<and> fgroup p = ''tertamine'' then
              (case first (ch_atoms p) of
                 Inl e \<Rightarrow> Inl e
               | Inr p0 \<Rightarrow>
                   (let n_atoms_coords = neighbor_coords p0
                    in if length n_atoms_coords < 3 then Inl IndexError
                       else
                         (let amine_normal =
                                cross (vector (n_atoms_coords ! 0) (n_atoms_coords ! 1))
                                      (vector (n_atoms_coords ! 2) (n_atoms_coords ! 0));
                              b = vecangle (normal rg) amine_normal;
                              a = fold_angle b
                          in if \<not> a > 30 then
                               (case first (ring_atoms rg) of
                                  Inl e \<Rightarrow> Inl e
                                | Inr r0 \<Rightarrow> Inr [pication_contact rg p d offset r0 protcharged])
                             else Inr [])))
            else
              (case first (if protcharged then ch_atoms p else ring_atoms rg) of
                 Inl e \<Rightarrow> Inl e
               | Inr res_atom \<Rightarrow>
                   (case pication_scan cfg protcharged rg ps of
                      Inl e \<Rightarrow> Inl e
                    | Inr rest \<Rightarrow> Inr (pication_contact rg p d offset res_atom protcharged # rest))))
         else pication_scan cfg protcharged rg ps)"

definition pication :: "config \<Rightarrow> ring list \<Rightarrow> charge list \<Rightarrow> bool \<Rightarrow> py_error + pication list" where
  "pication cfg rings pos_charged protcharged =
     (if \<not> length rings = 0 \<and> \<not> length pos_charged = 0
      then collect (\<lambda>rg. pication_scan cfg protcharged rg pos_charged) rings
      else Inr [])"

subsection \<open>Salt bridges\<close>

record saltbridge =
  sb_positive :: charge
  sb_negative :: charge
  sb_distance :: real
  sb_protispos :: bool
  sb_resnr :: "int option"
  sb_restype :: "string option"
  sb_reschain :: "string option"

definition saltbridge :: "config \<Rightarrow> charge list \<Rightarrow> charge list \<Rightarrow> bool \<Rightarrow> saltbridge list" where
  "saltbridge cfg poscenter negcenter protispos =
     concat (map (\<lambda>(pc, nc).
        if dist3 (ch_center pc) (ch_center nc) < SALTBRIDGE_DIST_MAX cfg
        then [\<lparr>sb_positive = pc, sb_negative = nc,
               sb_distance = dist3 (ch_center pc) (ch_center nc), sb_protispos = protispos,
               sb_resnr = (if protispos then ch_resnr pc else ch_resnr nc),
               sb_restype = (if protispos then ch_restype pc else ch_restype nc),
               sb_reschain = (if protispos then ch_reschain pc else ch_reschain nc)\<rparr>]
        else [])
       (List.product poscenter negcenter))"

subsection \<open>Halogen bonds\<close>

record hal_acceptor =
  hal_o :: atom
  hal_y :: atom
  hal_o_orig_idx :: nat

record hal_donor =
  hal_x :: atom
  hal_c :: atom
  hal_x_orig_idx :: nat

record halogenbond =
  xb_acc :: hal_acceptor
  xb_acc_orig_idx :: nat
  xb_don :: hal_donor
  xb_don_orig_idx :: nat
  xb_distance :: real
  xb_don_angle :: real
  xb_acc_angle :: real
  xb_restype :: "string option"
  xb_resnr :: "int option"
  xb_reschain :: "string option"
  xb_donortype :: string
  xb_acctype :: string
  xb_sidechain :: bool

definition halogen_pair :: "config \<Rightarrow> hal_acceptor \<times> hal_donor \<Rightarrow> py_error + halogenbond list" where
  "halogen_pair cfg = (\<lambda>(acc, don).
     let dist = dist3 (coords (hal_o acc)) (coords (hal_x don))
     in if dist < HALOGEN_DIST_MAX cfg then
          (let vec1 = vector (coords (hal_o acc)) (coords (hal_y acc));
               vec2 = vector (coords (hal_o acc)) (coords (hal_x don));
               vec3 = vector (coords (hal_x don)) (coords (hal_o acc));
               vec4 = vector (coords (hal_x don)) (coords (hal_c don));
               acc_angle = vecangle vec1 vec2;
               don_angle = vecangle vec3 vec4
           in case sidechain_property (hal_o acc) of
                Inl e \<Rightarrow> Inl e
              | Inr is_sidechain_hal \<Rightarrow>
                  (if HALOGEN_ACC_ANGLE cfg - HALOGEN_ANGLE_DEV cfg < acc_angle \<and>
                      acc_angle < HALOGEN_ACC_ANGLE cfg + HALOGEN_ANGLE_DEV cfg
                   then
                     (if HALOGEN_DON_ANGLE cfg - HALOGEN_ANGLE_DEV cfg < don_angle \<and>
                         don_angle < HALOGEN_DON_ANGLE cfg + HALOGEN_ANGLE_DEV cfg
                      then Inr [\<lparr>xb_acc = acc, xb_acc_orig_idx = hal_o_orig_idx acc,
                                 xb_don = don, xb_don_orig_idx = hal_x_orig_idx don,
                                 xb_distance = dist, xb_don_angle = don_angle,
                                 xb_acc_angle = acc_angle,
                                 xb_restype = whichrestype (hal_o acc),
                                 xb_resnr = whichresnumber (hal_o acc),
                                 xb_reschain = whichchain (hal_o acc),
                                 xb_donortype = atype (hal_x don),
                                 xb_acctype = atype (hal_o acc),
                                 xb_sidechain = is_sidechain_hal\<rparr>]
                      else Inr [])
                   else Inr []))
        else Inr [])"

definition halogen :: "config \<Rightarrow> hal_acceptor list \<Rightarrow> hal_donor list \<Rightarrow> py_error + halogenbond list" where
  "halogen cfg acceptor donor = collect (halogen_pair cfg) (List.product acceptor donor)"

subsection \<open>Water bridges\<close>

record water =
  oxy :: atom
  oxy_orig_idx :: nat

record waterbridge =
  wb_a :: atom
  wb_a_orig_idx :: nat
  wb_atype :: string
  wb_d :: atom
  wb_d_orig_idx :: nat
  wb_dtype :: string
  wb_h :: atom
  wb_water :: atom
  wb_water_orig_idx :: nat
  wb_distance_aw :: real
  wb_distance_dw :: real
  wb_d_angle :: real
  wb_w_angle :: real
  wb_type :: string
  wb_resnr :: "int option"
  wb_restype :: "string option"
  wb_reschain :: "string option"
  wb_protisdon :: bool

text \<open>
  The half-bridges of the first loop: the acceptor-water pairs and the donor-water pairs
  of one side, in the order the loop over the waters appends them.
\<close>

definition acceptor_water_pairs ::
  "config \<Rightarrow> hbond_acceptor list \<Rightarrow> water list \<Rightarrow> (hbond_acceptor \<times> water \<times> real) list" where
  "acceptor_water_pairs cfg hba waters =
     concat (map (\<lambda>w. concat (map (\<lambda>acc.
        let dist = dist3 (coords (acc_a acc)) (coords (oxy w))
        in if WATER_BRIDGE_MINDIST cfg \<le> dist \<and> dist \<le> WATER_BRIDGE_MAXDIST cfg
           then [(acc, w, dist)] else []) hba)) waters)"

definition donor_water_pairs ::
  "config \<Rightarrow> hbond_donor list \<Rightarrow> water list \<Rightarrow> (hbond_donor \<times> water \<times> real \<times> real) list" where
  "donor_water_pairs cfg hbd waters =
     concat (map (\<lambda>w. concat (map (\<lambda>don.
        let dist = dist3 (coords (don_d don)) (coords (oxy w));
            d_angle = vecangle (vector (coords (don_h don)) (coords (don_d don)))
                               (vector (coords (don_h don)) (coords (oxy w)))
        in if WATER_BRIDGE_MINDIST cfg \<le> dist \<and> dist \<le> WATER_BRIDGE_MAXDIST cfg \<and>
              d_angle > WATER_BRIDGE_THETA_MIN cfg
           then [(don, w, dist, d_angle)] else []) hbd)) waters)"

text \<open>
  The second loop, for one direction: an acceptor half-bridge and a donor half-bridge
  are combined when their waters have the same oxygen and the angle at the water is in
  the window. The residue is read from the protein atom: the donor when \<open>protisdon\<close>,
  the acceptor otherwise.
\<close>

definition bridge_pair ::
  "config \<Rightarrow> bool \<Rightarrow> (hbond_acceptor \<times> water \<times> real) \<times> (hbond_donor \<times> water \<times> real \<times> real)
     \<Rightarrow> waterbridge list" where
  "bridge_pair cfg protisdon = (\<lambda>((acc, wl, distance_aw), (don, wd, distance_dw, d_angle)).
     if oxy wl = oxy wd then
       (let w_angle = vecangle (vector (coords (acc_a acc)) (coords (oxy wl)))
                               (vector (coords (oxy wl)) (coords (don_h don)));
            protatom = (if protisdon then don_d don else acc_a acc)
        in if WATER_BRIDGE_OMEGA_MIN cfg < w_angle \<and> w_angle < WATER_BRIDGE_OMEGA_MAX cfg
           then [\<lparr>wb_a = acc_a acc, wb_a_orig_idx = acc_a_orig_idx acc,
                  wb_atype = atype (acc_a acc), wb_d = don_d don,
                  wb_d_orig_idx = don_d_orig_idx don, wb_dtype = atype (don_d don),
                  wb_h = don_h don, wb_water = oxy wl, wb_water_orig_idx = oxy_orig_idx wl,
                  wb_distance_aw = distance_aw, wb_distance_dw = distance_dw,
                  wb_d_angle = d_angle, wb_w_angle = w_angle, wb_type = ''first_deg'',
                  wb_resnr = whichresnumber protatom, wb_restype = whichrestype protatom,
                  wb_reschain = whichchain protatom, wb_protisdon = protisdon\<rparr>]
           else [])
     else [])"

definition water_bridges ::
  "config \<Rightarrow> hbond_acceptor list \<Rightarrow> hbond_acceptor list \<Rightarrow> hbond_donor list \<Rightarrow> hbond_donor list
     \<Rightarrow> water list \<Rightarrow> waterbridge list" where
  "water_bridges cfg bs_hba lig_hba bs_hbd lig_hbd waters =
     (let lig_aw = acceptor_water_pairs cfg lig_hba waters;
          prot_aw = acceptor_water_pairs cfg bs_hba waters;
          lig_dw = donor_water_pairs cfg lig_hbd waters;
          prot_hw = donor_water_pairs cfg bs_hbd waters
      in concat (map (bridge_pair cfg True) (List.product lig_aw prot_hw)) @
         concat (map (bridge_pair cfg False) (List.product prot_aw lig_dw)))"

section \<open>Metal complexes\<close>

text \<open>
  The dictionaries of \<open>metal_complexation\<close> are association lists in insertion order,
  the order in which Python (from 3.7 on) iterates a dictionary; the metal of a complex
  and the atom index of a target are the keys.
\<close>

record metal_center =
  metal_m :: atom
  metal_m_orig_idx :: nat

record metal_target =
  tg_atom :: atom
  tg_atom_orig_idx :: nat
  tg_type :: string
  tg_resnr :: int
  tg_restype :: string
  tg_reschain :: string
  tg_location :: string

datatype coordination = Coo nat | CooNA

record metal_complex =
  mc_metal :: atom
  mc_metal_orig_idx :: nat
  mc_metal_type :: string
  mc_target :: metal_target
  mc_target_orig_idx :: nat
  mc_target_type :: string
  mc_coordination_num :: coordination
  mc_distance :: real
  mc_resnr :: int
  mc_restype :: string
  mc_reschain :: string
  mc_location :: string
  mc_rms :: real
  mc_geometry :: string
  mc_num_partners :: nat
  mc_complexnum :: nat

text \<open>\<open>d[k].append(v)\<close>, creating the list for a new key at the end of the dictionary.\<close>

fun dict_append :: "'k \<Rightarrow> 'v \<Rightarrow> ('k \<times> 'v list) list \<Rightarrow> ('k \<times> 'v list) list" where
  "dict_append k v [] = [(k, [v])]"
| "dict_append k v ((k', vs) # rest) =
     (if k = k' then (k', vs @ [v]) # rest else (k', vs) # dict_append k v rest)"

text \<open>The first loop: the targets within \<open>METAL_DIST_MAX\<close> of each metal.\<close>

definition pairing_step ::
  "config \<Rightarrow> metal_center \<times> metal_target
     \<Rightarrow> (atom \<times> (metal_target \<times> real) list) list \<times> (atom \<times> nat) list
     \<Rightarrow> (atom \<times> (metal_target \<times> real) list) list \<times> (atom \<times> nat) list" where
  "pairing_step cfg = (\<lambda>(metal, target) (pairings_dict, metal_to_id).
     let distance = dist3 (coords (metal_m metal)) (coords (tg_atom target))
     in if distance < METAL_DIST_MAX cfg then
          (if map_of pairings_dict (metal_m metal) = None
           then (pairings_dict @ [(metal_m metal, [(target, distance)])],
                 metal_to_id @ [(metal_m metal, metal_m_orig_idx metal)])
           else (dict_append (metal_m metal) (target, distance) pairings_dict, metal_to_id))
        else (pairings_dict, metal_to_id))"

definition vectors_of :: "atom \<Rightarrow> (metal_target \<times> real) list \<Rightarrow> (nat \<times> coords list) list" where
  "vectors_of metal contact_pairs =
     fold (\<lambda>(target, distance) vectors_dict.
             dict_append (idx (tg_atom target)) (vector (coords metal) (coords (tg_atom target)))
               vectors_dict)
       contact_pairs []"

text \<open>Listing of coordination numbers and their geometries, and the angle signatures.\<close>

definition configs :: "(nat \<times> string list) list" where
  "configs =
     [(2, [''linear'']),
      (3, [''trigonal.planar'', ''trigonal.pyramidal'']),
      (4, [''tetrahedral'', ''square.planar'']),
      (5, [''trigonal.bipyramidal'', ''square.pyramidal'']),
      (6, [''octahedral''])]"

definition ideal_angles :: "(string \<times> real list list) list" where
  "ideal_angles =
     [(''linear'', replicate 2 [180]),
      (''trigonal.planar'', replicate 3 [120, 120]),
      (''trigonal.pyramidal'', replicate 3 [109.5, 109.5]),
      (''tetrahedral'', replicate 4 [109.5, 109.5, 109.5, 109.5]),
      (''square.planar'', replicate 4 [90, 90, 90, 90]),
      (''trigonal.bipyramidal'', replicate 3 [120, 120, 90, 90] @ replicate 2 [90, 90, 90, 180]),
      (''square.pyramidal'', replicate 4 [90, 90, 90, 180] @ [[90, 90, 90, 90]]),
      (''octahedral'', replicate 6 [90, 90, 90, 90, 180])]"

text \<open>A lookup in one of the two tables; every key the code looks up is in its table.\<close>

definition lookup :: "('k \<times> 'v list) list \<Rightarrow> 'k \<Rightarrow> 'v list" where
  "lookup d k = (case map_of d k of None \<Rightarrow> [] | Some v \<Rightarrow> v)"

text \<open>The observed angles of each target to the vectors of every other target.\<close>

definition angles_of :: "(nat \<times> coords list) list \<Rightarrow> (nat \<times> real list) list" where
  "angles_of vectors_dict =
     map (\<lambda>(target, cur_vector).
            (target,
             map (\<lambda>(v1, v2). vecangle v1 v2)
               (List.product cur_vector
                  (concat (map snd (filter (\<lambda>(t, vs). \<not> t = target) vectors_dict))))))
       vectors_dict"

record gdata =
  geometry :: string
  rms :: real
  coordination :: nat
  excluded :: "nat list"
  diff_targets :: int

text \<open>
  The best-matching unused observed angle for an ideal angle: the first one with the
  smallest difference below 999.
\<close>

definition best_match :: "real \<Rightarrow> nat list \<Rightarrow> real list \<Rightarrow> nat option \<times> real" where
  "best_match ideal_angle used_up_observed_angles observed_angles =
     fold (\<lambda>(j, observed_angle) (best_match, best_match_diff).
             if j \<notin> set used_up_observed_angles then
               (let diff = \<bar>ideal_angle - observed_angle\<bar>
                in if diff < best_match_diff then (Some j, diff)
                   else (best_match, best_match_diff))
             else (best_match, best_match_diff))
       (enumerate 0 observed_angles) (None, 999)"

definition single_target_scores :: "real list \<Rightarrow> real list \<Rightarrow> real list" where
  "single_target_scores subsignature observed_angles =
     snd (fold (\<lambda>ideal_angle (used_up_observed_angles, scores).
                  case best_match ideal_angle used_up_observed_angles observed_angles of
                    (Some j, d) \<Rightarrow> (used_up_observed_angles @ [j], scores @ [d])
                  | (None, d) \<Rightarrow> (used_up_observed_angles, scores))
            subsignature ([], []))"

definition target_total :: "real list \<Rightarrow> real list \<Rightarrow> real" where
  "target_total subsignature observed_angles =
     sqrt (sum_list (map (\<lambda>x. x ^ 2) (single_target_scores subsignature observed_angles)))"

text \<open>The best unused target for one subsignature: the first one with the lowest total.\<close>

definition best_target ::
  "(nat \<times> real list) list \<Rightarrow> nat option list \<Rightarrow> real list \<Rightarrow> nat option \<times> real" where
  "best_target angles_dict used_up_targets subsignature =
     fold (\<lambda>(target, observed_angles) (best, best_target_score).
             if Some target \<notin> set used_up_targets then
               (let total = target_total subsignature observed_angles
                in if total < best_target_score then (Some target, total)
                   else (best, best_target_score))
             else (best, best_target_score))
       angles_dict (None, 999)"

definition np_mean :: "real list \<Rightarrow> real" where
  "np_mean xs = sum_list xs / real (length xs)"

text \<open>
  The fit of one geometry: its score, the mean of the best scores of its subsignatures,
  and the targets no subsignature used.
\<close>

definition fit_geometry :: "(nat \<times> real list) list \<Rightarrow> real list list \<Rightarrow> real \<times> nat list" where
  "fit_geometry angles_dict signature =
     (let (used_up_targets, geometry_scores) =
            fold (\<lambda>subsignature (used, scores).
                    let (best, best_target_score) = best_target angles_dict used subsignature
                    in (used @ [best], scores @ [best_target_score]))
              signature ([], []);
          geometry_total = (if signature = [] then 0 else np_mean geometry_scores)
      in (geometry_total, filter (\<lambda>t. Some t \<notin> set used_up_targets) (map fst angles_dict)))"

definition all_totals :: "nat \<Rightarrow> (nat \<times> real list) list \<Rightarrow> gdata list" where
  "all_totals num_targets angles_dict =
     concat (map (\<lambda>coo.
        map (\<lambda>g. let (geometry_total, not_used) = fit_geometry angles_dict (lookup ideal_angles g)
                 in \<lparr>geometry = g, rms = geometry_total, coordination = coo,
                     excluded = not_used, diff_targets = int num_targets - int coo\<rparr>)
          (lookup configs coo))
       (rev (sort (map fst configs))))"

text \<open>
  The decision: the values of \<open>final_geom\<close>, \<open>final_coo\<close>, \<open>rms\<close> and \<open>excluded\<close>.
  Before the walk \<open>final_geom\<close> and \<open>final_coo\<close> are unbound, which is the state
  \<open>None\<close>.
\<close>

record decision =
  final_geom :: string
  final_coo :: coordination
  final_rms :: real
  final_excluded :: "nat list"

definition accept :: "gdata \<Rightarrow> decision" where
  "accept g =
     \<lparr>final_geom = geometry g, final_coo = Coo (coordination g),
      final_rms = rms g, final_excluded = excluded g\<rparr>"

definition unclassified :: decision where
  "unclassified = \<lparr>final_geom = ''NA'', final_coo = CooNA, final_rms = 0, final_excluded = []\<rparr>"

text \<open>
  The walk \<open>for i, total in enumerate(all_total)\<close> from position \<open>i\<close> on. Its first
  statement reads \<open>all_total[i + 1]\<close>, an IndexError at the last position; the two
  accepting branches leave the loop; the third branch assigns the unclassified state and
  the loop goes on.
\<close>

function decide :: "nat \<Rightarrow> gdata list \<Rightarrow> decision option \<Rightarrow> py_error + decision option" where
  "decide i all_total cur =
     (if i < length all_total then
        (if i + 1 < length all_total then
           (let total = all_total ! i;
                next_total = all_total ! (i + 1);
                diff_to_next = rms next_total - rms total
            in if diff_to_next > 0.5 then Inr (Some (accept total))
               else if rms next_total < 3.5 then Inr (Some (accept next_total))
               else if i = length all_total - 1 then decide (i + 1) all_total (Some unclassified)
               else decide (i + 1) all_total cur)
         else Inl IndexError)
      else Inr cur)"
  by pat_completeness auto
termination
  by (relation "measure (\<lambda>(i, all_total, cur). length all_total - i)") auto

declare decide.simps [simp del]

text \<open>
  The classification of one metal from its number of contact pairs and the observed
  angles of its targets.
\<close>

definition classify :: "nat \<Rightarrow> (nat \<times> real list) list \<Rightarrow> py_error + decision option" where
  "classify num_targets angles_dict =
     (if num_targets = 1
      then Inr (Some \<lparr>final_geom = ''NA'', final_coo = Coo 1, final_rms = 0, final_excluded = []\<rparr>)
      else decide 0 (sort_key (\<lambda>x. \<bar>diff_targets x\<bar>) (all_totals num_targets angles_dict)) None)"

text \<open>
  The records of one complex: none when every target is a water; otherwise one for each
  contact pair whose target is not excluded.
\<close>

definition complex_records ::
  "nat \<Rightarrow> atom \<Rightarrow> nat \<Rightarrow> (metal_target \<times> real) list \<Rightarrow> decision option
     \<Rightarrow> py_error + metal_complex list" where
  "complex_records cnum metal metal_id contact_pairs dec =
     (let only_water = (set (map (\<lambda>x. tg_location (fst x)) contact_pairs) = {''water''})
      in if \<not> only_water then
           (case dec of
              None \<Rightarrow> Inl UnboundLocalError
            | Some d \<Rightarrow>
                Inr (map (\<lambda>(target, distance).
                       \<lparr>mc_metal = metal, mc_metal_orig_idx = metal_id,
                        mc_metal_type = atype metal, mc_target = target,
                        mc_target_orig_idx = tg_atom_orig_idx target,
                        mc_target_type = tg_type target, mc_coordination_num = final_coo d,
                        mc_distance = distance, mc_resnr = tg_resnr target,
                        mc_restype = tg_restype target, mc_reschain = tg_reschain target,
                        mc_location = tg_location target, mc_rms = final_rms d,
                        mc_geometry = final_geom d, mc_num_partners = length contact_pairs,
                        mc_complexnum = cnum + 1\<rparr>)
                     (filter (\<lambda>(target, distance). idx (tg_atom target) \<notin> set (final_excluded d))
                        contact_pairs)))
         else Inr [])"

definition complex_of ::
  "(atom \<times> nat) list \<Rightarrow> nat \<times> atom \<times> (metal_target \<times> real) list \<Rightarrow> py_error + metal_complex list" where
  "complex_of metal_to_id = (\<lambda>(cnum, metal, contact_pairs).
     case classify (length contact_pairs) (angles_of (vectors_of metal contact_pairs)) of
       Inl e \<Rightarrow> Inl e
     | Inr dec \<Rightarrow>
         (case map_of metal_to_id metal of
            None \<Rightarrow> Inl KeyError
          | Some metal_id \<Rightarrow> complex_records cnum metal metal_id contact_pairs dec))"

definition pairings_of ::
  "config \<Rightarrow> metal_center list \<Rightarrow> metal_target list
     \<Rightarrow> (atom \<times> (metal_target \<times> real) list) list \<times> (atom \<times> nat) list" where
  "pairings_of cfg metals targets = fold (pairing_step cfg) (List.product metals targets) ([], [])"

definition metal_complexation ::
  "config \<Rightarrow> metal_center list \<Rightarrow> metal_target list \<Rightarrow> metal_target list
     \<Rightarrow> py_error + metal_complex list" where
  "metal_complexation cfg metals metal_binding_lig metal_binding_bs =
     (let (pairings_dict, metal_to_id) = pairings_of cfg metals (metal_binding_lig @ metal_binding_bs)
      in collect (complex_of metal_to_id) (enumerate 0 pairings_dict))"

section \<open>The cluster utility of supplemental.py\<close>

text \<open>
  The state of \<open>cluster_doubles\<close>: the hashtable \<open>location\<close> from each element to the
  index of its cluster, and the list \<open>clusters\<close> of sets. An index outside the list is
  an IndexError. The result is the list of clusters; the tuples the source returns hold
  the elements of each set in the unspecified order of the set.
\<close>

type_synonym 'a cluster_state = "('a \<rightharpoonup> nat) \<times> 'a set list"

text \<open>\<open>clusters[i].add(x)\<close>\<close>

definition cluster_add :: "nat \<Rightarrow> 'a \<Rightarrow> 'a set list \<Rightarrow> py_error + 'a set list" where
  "cluster_add i x clusters =
     (if i < length clusters then Inr (clusters[i := insert x (clusters ! i)]) else Inl IndexError)"

text \<open>
  \<open>clusters[i] = clusters[i].union(clusters[j])\<close> followed by
  \<open>clusters = clusters[:j] + clusters[j+1:]\<close>
\<close>

definition cluster_merge :: "nat \<Rightarrow> nat \<Rightarrow> 'a set list \<Rightarrow> py_error + 'a set list" where
  "cluster_merge i j clusters =
     (if i < length clusters \<and> j < length clusters
      then (let merged = clusters[i := clusters ! i \<union> clusters ! j]
            in Inr (take j merged @ drop (j + 1) merged))
      else Inl IndexError)"

text \<open>Rebuild index of locations for each element.\<close>

definition rebuild_location :: "'a set list \<Rightarrow> ('a \<rightharpoonup> nat)" where
  "rebuild_location clusters =
     fold (\<lambda>(i, cluster) location. (\<lambda>c. if c \<in> cluster then Some i else location c))
       (enumerate 0 clusters) Map.empty"

definition cluster_step :: "'a \<times> 'a \<Rightarrow> 'a cluster_state \<Rightarrow> py_error + 'a cluster_state" where
  "cluster_step = (\<lambda>(a, b) (location, clusters).
     case (location a, location b) of
       (Some la, Some lb) \<Rightarrow>
         (if la \<noteq> lb then
            (case (if la < lb then cluster_merge la lb clusters else cluster_merge lb la clusters) of
               Inl e \<Rightarrow> Inl e
             | Inr clusters' \<Rightarrow> Inr (rebuild_location clusters', clusters'))
          else Inr (location, clusters))
     | _ \<Rightarrow>
         (case (case location a of
                  Some la \<Rightarrow>
                    (case cluster_add la b clusters of
                       Inl e \<Rightarrow> Inl e
                     | Inr clusters1 \<Rightarrow> Inr (location(b \<mapsto> la), clusters1))
                | None \<Rightarrow> Inr (location, clusters)) of
            Inl e \<Rightarrow> Inl e
          | Inr (location1, clusters1) \<Rightarrow>
              (case (case location1 b of
                       Some lb \<Rightarrow>
                         (case cluster_add lb a clusters1 of
                            Inl e \<Rightarrow> Inl e
                          | Inr clusters2 \<Rightarrow> Inr (location1(a \<mapsto> lb), clusters2))
                     | None \<Rightarrow> Inr (location1, clusters1)) of
                 Inl e \<Rightarrow> Inl e
               | Inr (location2, clusters2) \<Rightarrow>
                   (if \<not> (location2 b \<noteq> None \<and> location2 a \<noteq> None) then
                      (let clusters3 = clusters2 @ [{a, b}]
                       in Inr (location2(a \<mapsto> length clusters3 - 1, b \<mapsto> length clusters3 - 1),
                               clusters3))
                    else Inr (location2, clusters2)))))"

fun cluster_loop :: "('a \<times> 'a) list \<Rightarrow> 'a cluster_state \<Rightarrow> py_error + 'a cluster_state" where
  "cluster_loop [] s = Inr s"
| "cluster_loop (t # ts) s =
     (case cluster_step t s of Inl e \<Rightarrow> Inl e | Inr s' \<Rightarrow> cluster_loop ts s')"

definition cluster_doubles :: "('a \<times> 'a) list \<Rightarrow> py_error + 'a set list" where
  "cluster_doubles double_list =
     (case cluster_loop double_list (Map.empty, []) of
        Inl e \<Rightarrow> Inl e
      | Inr (location, clusters) \<Rightarrow> Inr clusters)"

section \<open>Auxiliary definitions\<close>

text \<open>
  The invariant of the first loop of \<open>metal_complexation\<close>: every contact pair stored
  for a metal holds the distance of its target to the metal, and that distance is below
  \<open>METAL_DIST_MAX\<close>.
\<close>

definition within_reach :: "config \<Rightarrow> (atom \<times> (metal_target \<times> real) list) list \<Rightarrow> bool" where
  "within_reach cfg pd =
     list_all (\<lambda>(mt, pairs). list_all (\<lambda>(t, d). d < METAL_DIST_MAX cfg \<and>
        d = dist3 (coords mt) (coords (tg_atom t))) pairs) pd"

text \<open>
  Concrete inputs for the examples. The thresholds for salt bridges and halogen bonds
  are the ones the specification names in its scenarios; the module \<open>config\<close> is not
  among the source files, and the other values are chosen for the examples.
\<close>

definition example_config :: config where
  "example_config =
     \<lparr>HYDROPH_DIST_MAX = 4, HBOND_DIST_MAX = 4.1, HBOND_DON_ANGLE_MIN = 100,
      PISTACK_DIST_MAX = 7.5, PISTACK_ANG_DEV = 30, PISTACK_OFFSET_MAX = 2,
      PICATION_DIST_MAX = 6, SALTBRIDGE_DIST_MAX = 5.5, HALOGEN_DIST_MAX = 4,
      HALOGEN_ACC_ANGLE = 120, HALOGEN_DON_ANGLE = 165, HALOGEN_ANGLE_DEV = 30,
      WATER_BRIDGE_MINDIST = 2.5, WATER_BRIDGE_MAXDIST = 4, WATER_BRIDGE_OMEGA_MIN = 75,
      WATER_BRIDGE_OMEGA_MAX = 140, WATER_BRIDGE_THETA_MIN = 100, METAL_DIST_MAX = 3\<rparr>"

definition example_atom :: "nat \<Rightarrow> coords \<Rightarrow> atom" where
  "example_atom i c =
     \<lparr>idx = i, coords = c, atype = ''X'',
      atom_residue = Some \<lparr>res_name = ''RES'', res_num = 1, res_chain = ''A''\<rparr>,
      sidechain_flag = False, neighbor_coords = []\<rparr>"

definition example_charge :: "nat \<Rightarrow> coords \<Rightarrow> charge" where
  "example_charge i c =
     \<lparr>ch_atoms = [example_atom i c], ch_center = c, is_lcharge = False, fgroup = ''quartamine'',
      ch_resnr = Some 1, ch_restype = Some ''RES'', ch_reschain = Some ''A''\<rparr>"

definition example_water :: water where
  "example_water = \<lparr>oxy = example_atom 1 (0, 0, 0), oxy_orig_idx = 1\<rparr>"

definition example_acceptor :: hbond_acceptor where
  "example_acceptor = \<lparr>acc_a = example_atom 2 (3, 0, 0), acc_a_orig_idx = 2\<rparr>"

definition example_donor :: hbond_donor where
  "example_donor =
     \<lparr>don_d = example_atom 3 (0, 3, 0), don_d_orig_idx = 3, don_h = example_atom 4 (0, 2, 0)\<rparr>"

text \<open>
  A metal and a metal-binding target for the examples.
\<close>

definition example_metal :: metal_center where
  "example_metal = \<lparr>metal_m = example_atom 10 (0, 0, 0), metal_m_orig_idx = 10\<rparr>"

definition example_target :: "nat \<Rightarrow> coords \<Rightarrow> metal_target" where
  "example_target i c =
     \<lparr>tg_atom = example_atom i c, tg_atom_orig_idx = i, tg_type = ''O'', tg_resnr = 1,
      tg_restype = ''RES'', tg_reschain = ''A'', tg_location = ''protein.sidechain''\<rparr>"

text \<open>
  The three measurements of a ring pair that pistacking tests, and a ring for the examples.
\<close>

definition stack_distance :: "ring \<Rightarrow> ring \<Rightarrow> real" where
  "stack_distance r l = dist3 (center r) (center l)"

definition stack_angle :: "ring \<Rightarrow> ring \<Rightarrow> real" where
  "stack_angle r l = fold_angle (vecangle (normal r) (normal l))"

definition stack_offset :: "ring \<Rightarrow> ring \<Rightarrow> real" where
  "stack_offset r l =
     min (dist3 (projection (normal l) (center l) (center r)) (center l))
         (dist3 (projection (normal r) (center r) (center l)) (center r))"

definition example_ring :: "coords \<Rightarrow> coords \<Rightarrow> ring" where
  "example_ring c n = \<lparr>center = c, normal = n, ring_atoms = [example_atom 20 c]\<rparr>"

text \<open>
  A tertiary amine for the examples: its nitrogen has three neighbours.
\<close>

definition example_amine :: charge where
  "example_amine =
     \<lparr>ch_atoms = [(example_atom 30 (0, 0, 3))\<lparr>neighbor_coords := [(1, 0, 3), (2, 0, 3), (1, 1, 3)]\<rparr>],
      ch_center = (0, 0, 3), is_lcharge = True, fgroup = ''tertamine'',
      ch_resnr = None, ch_restype = None, ch_reschain = None\<rparr>"

text \<open>
  One entry of \<open>all_total\<close>, the ranked list of the entries, and the condition under
  which the walk leaves a position without a decision.
\<close>

definition candidate :: "nat \<Rightarrow> (nat \<times> real list) list \<Rightarrow> nat \<Rightarrow> string \<Rightarrow> gdata" where
  "candidate num_targets angles_dict coo g =
     \<lparr>geometry = g, rms = fst (fit_geometry angles_dict (lookup ideal_angles g)),
      coordination = coo, excluded = snd (fit_geometry angles_dict (lookup ideal_angles g)),
      diff_targets = int num_targets - int coo\<rparr>"

definition candidates :: "nat \<Rightarrow> (nat \<times> real list) list \<Rightarrow> gdata list" where
  "candidates num_targets angles_dict =
     sort_key (\<lambda>x. \<bar>diff_targets x\<bar>) (all_totals num_targets angles_dict)"

definition undecided :: "gdata list \<Rightarrow> nat \<Rightarrow> bool" where
  "undecided all_total i =
     (\<not> rms (all_total ! (i + 1)) - rms (all_total ! i) > 0.5 \<and> \<not> rms (all_total ! (i + 1)) < 3.5)"

text \<open>
  A target list in which one atom is listed six times.
\<close>

definition repeated_target :: "metal_target list" where
  "repeated_target = replicate 6 (example_target 11 (2, 0, 0))"

section \<open>Claims about the distance primitive\<close>

lemma euclidean3d_triples: "euclidean3d (as_list p) (as_list q) = Inr (Some (dist3 p q))"
  by (cases p, cases q) (simp add: euclidean3d_def)


text \<open>
  C5 (as stated in the specification): a call of the distance primitive with an argument
  that is not a 3-coordinate point signals a fault and never returns a null value.
  The code does return the null value: with a 2-coordinate first argument and a
  3-coordinate second argument the result is \<open>None\<close>, not an error.
\<close>

theorem euclidean3d_returns_none_counterexample:
  "length [0, 0 :: real] \<noteq> 3 \<and> euclidean3d [0, 0] [0, 0, 0] = Inr None"
  by (simp add: euclidean3d_def)

text \<open>
  C5 (amended): when the first argument is not a 3-coordinate point and the second one
  is, the distance primitive returns the null value \<open>None\<close> and raises nothing; when
  both arguments are 3-coordinate points it returns their Euclidean distance.
\<close>

theorem euclidean3d_guard:
  "(length v1 \<noteq> 3 \<and> length v2 = 3 \<longrightarrow> euclidean3d v1 v2 = Inr None) \<and>
   (length v1 = 3 \<and> length v2 = 3 \<longrightarrow>
      euclidean3d v1 v2 =
        Inr (Some (sqrt ((v1 ! 0 - v2 ! 0) ^ 2 + (v1 ! 1 - v2 ! 1) ^ 2 + (v1 ! 2 - v2 ! 2) ^ 2))))"
  by (simp add: euclidean3d_def)

theorem euclidean3d_guard_witness:
  "euclidean3d [1, 2] [0, 0, 0] = Inr None \<and> euclidean3d [3, 0, 0] [0, 4, 0] = Inr (Some 5)"
proof -
  have a: "euclidean3d [1, 2] [0, 0, 0] = Inr None"
    using euclidean3d_guard [of "[1, 2]" "[0, 0, 0]"] by simp
  have "sqrt (25::real) = 5"
    using real_sqrt_abs [of 5] by simp
  then have b: "euclidean3d [3, 0, 0] [0, 4, 0] = Inr (Some 5)"
    using euclidean3d_guard [of "[3, 0, 0]" "[0, 4, 0]"] by simp
  from a b show ?thesis by simp
qed

section \<open>Evaluation of angles and distances at concrete points\<close>

lemma round10_0: "round10 0 = 0"
  by (simp add: round10_def)

lemma round10_1: "round10 1 = 1"
  by (simp add: round10_def)

lemma round10_m1: "round10 (- 1) = - 1"
  by (simp add: round10_def)

lemma vecangle_orthogonal: "v1 \<noteq> v2 \<Longrightarrow> dot v1 v2 = 0 \<Longrightarrow> vecangle v1 v2 = 90"
  by (simp add: vecangle_def round10_0)

lemma vecangle_opposite:
  "v1 \<noteq> v2 \<Longrightarrow> dot v1 v2 = - (norm3 v1 * norm3 v2) \<Longrightarrow> norm3 v1 * norm3 v2 \<noteq> 0 \<Longrightarrow>
     vecangle v1 v2 = 180"
  by (simp add: vecangle_def round10_m1)

lemma vecangle_parallel:
  "v1 \<noteq> v2 \<Longrightarrow> dot v1 v2 = norm3 v1 * norm3 v2 \<Longrightarrow> norm3 v1 * norm3 v2 \<noteq> 0 \<Longrightarrow>
     vecangle v1 v2 = 0"
  by (simp add: vecangle_def round10_1)

lemma sqrt_9: "sqrt 9 = 3"
  using real_sqrt_abs [of 3] by simp

lemma sqrt_16: "sqrt 16 = 4"
  using real_sqrt_abs [of 4] by simp

section \<open>Every record satisfies the thresholds of its class\<close>

lemma collect_Inr:
  "collect f xs = Inr rs \<Longrightarrow> r \<in> set rs \<Longrightarrow> \<exists>x\<in>set xs. \<exists>ys. f x = Inr ys \<and> r \<in> set ys"
proof (induction xs arbitrary: rs)
  case Nil
  then show ?case by simp
next
  case (Cons x xs)
  then show ?case
    by (auto split: sum.splits)
qed

lemma hydrophobic_threshold:
  "r \<in> set (hydrophobic_interactions cfg A B) \<Longrightarrow>
     hyd_distance r < HYDROPH_DIST_MAX cfg \<and>
     hyd_distance r = dist3 (coords (hyd_bsatom r)) (coords (hyd_ligatom r))"
  by (auto simp: hydrophobic_interactions_def Let_def split: if_splits)

lemma saltbridge_threshold:
  "r \<in> set (saltbridge cfg P N f) \<Longrightarrow>
     sb_distance r < SALTBRIDGE_DIST_MAX cfg \<and>
     sb_distance r = dist3 (ch_center (sb_positive r)) (ch_center (sb_negative r))"
  by (auto simp: saltbridge_def split: if_splits)

lemma hbond_pair_threshold:
  "hbond_pair cfg pd ty x = Inr ys \<Longrightarrow> r \<in> set ys \<Longrightarrow>
     hb_distance_ad r < HBOND_DIST_MAX cfg \<and> hb_angle r > HBOND_DON_ANGLE_MIN cfg"
  by (cases x, cases "sidechain_property (if pd then don_d (snd x) else acc_a (fst x))")
     (auto simp: hbond_pair_def Let_def split: if_splits)

lemma hbonds_threshold:
  "hbonds cfg acs dons pd ty = Inr rs \<Longrightarrow> r \<in> set rs \<Longrightarrow>
     hb_distance_ad r < HBOND_DIST_MAX cfg \<and> hb_angle r > HBOND_DON_ANGLE_MIN cfg"
  unfolding hbonds_def
  by (drule (1) collect_Inr) (blast dest: hbond_pair_threshold)

lemma pistack_pair_threshold:
  "pistack_pair cfg x = Inr ys \<Longrightarrow> r \<in> set ys \<Longrightarrow>
     ps_distance r < PISTACK_DIST_MAX cfg \<and> ps_offset r < PISTACK_OFFSET_MAX cfg \<and>
     (ps_type r = ''P'' \<and> 0 < ps_angle r \<and> ps_angle r < PISTACK_ANG_DEV cfg \<or>
      ps_type r = ''T'' \<and> 90 - PISTACK_ANG_DEV cfg < ps_angle r \<and> ps_angle r < 90 + PISTACK_ANG_DEV cfg)"
  by (cases x, cases "first (ring_atoms (fst x))")
     (auto simp: pistack_pair_def Let_def split: if_splits)

lemma pistacking_threshold:
  "pistacking cfg rb rl = Inr rs \<Longrightarrow> r \<in> set rs \<Longrightarrow>
     ps_distance r < PISTACK_DIST_MAX cfg \<and> ps_offset r < PISTACK_OFFSET_MAX cfg \<and>
     (ps_type r = ''P'' \<and> 0 < ps_angle r \<and> ps_angle r < PISTACK_ANG_DEV cfg \<or>
      ps_type r = ''T'' \<and> 90 - PISTACK_ANG_DEV cfg < ps_angle r \<and> ps_angle r < 90 + PISTACK_ANG_DEV cfg)"
  unfolding pistacking_def
  by (drule (1) collect_Inr) (blast dest: pistack_pair_threshold)

lemma halogen_pair_threshold:
  "halogen_pair cfg x = Inr ys \<Longrightarrow> r \<in> set ys \<Longrightarrow>
     xb_distance r < HALOGEN_DIST_MAX cfg \<and>
     HALOGEN_ACC_ANGLE cfg - HALOGEN_ANGLE_DEV cfg < xb_acc_angle r \<and>
     xb_acc_angle r < HALOGEN_ACC_ANGLE cfg + HALOGEN_ANGLE_DEV cfg \<and>
     HALOGEN_DON_ANGLE cfg - HALOGEN_ANGLE_DEV cfg < xb_don_angle r \<and>
     xb_don_angle r < HALOGEN_DON_ANGLE cfg + HALOGEN_ANGLE_DEV cfg"
  by (cases x, cases "sidechain_property (hal_o (fst x))")
     (auto simp: halogen_pair_def Let_def split: if_splits)

lemma halogen_threshold:
  "halogen cfg acs dons = Inr rs \<Longrightarrow> r \<in> set rs \<Longrightarrow>
     xb_distance r < HALOGEN_DIST_MAX cfg \<and>
     HALOGEN_ACC_ANGLE cfg - HALOGEN_ANGLE_DEV cfg < xb_acc_angle r \<and>
     xb_acc_angle r < HALOGEN_ACC_ANGLE cfg + HALOGEN_ANGLE_DEV cfg \<and>
     HALOGEN_DON_ANGLE cfg - HALOGEN_ANGLE_DEV cfg < xb_don_angle r \<and>
     xb_don_angle r < HALOGEN_DON_ANGLE cfg + HALOGEN_ANGLE_DEV cfg"
  unfolding halogen_def
  by (drule (1) collect_Inr) (blast dest: halogen_pair_threshold)

lemma pication_scan_threshold:
  "pication_scan cfg pc rg ps = Inr rs \<Longrightarrow> r \<in> set rs \<Longrightarrow>
     pc_distance r < PICATION_DIST_MAX cfg \<and> pc_offset r < PISTACK_OFFSET_MAX cfg"
proof (induction ps arbitrary: rs)
  case Nil
  then show ?case by simp
next
  case (Cons p ps)
  then show ?case
    by (auto simp: Let_def pication_contact_def split: if_splits sum.splits)
qed

lemma pication_threshold:
  "pication cfg rings pos pc = Inr rs \<Longrightarrow> r \<in> set rs \<Longrightarrow>
     pc_distance r < PICATION_DIST_MAX cfg \<and> pc_offset r < PISTACK_OFFSET_MAX cfg"
  unfolding pication_def
  apply (simp split: if_splits)
  apply (drule (1) collect_Inr)
  apply (auto dest: pication_scan_threshold)
  done

lemma acceptor_water_pairs_iff:
  "(acc, w, d) \<in> set (acceptor_water_pairs cfg hba ws) \<longleftrightarrow>
     acc \<in> set hba \<and> w \<in> set ws \<and> d = dist3 (coords (acc_a acc)) (coords (oxy w)) \<and>
     WATER_BRIDGE_MINDIST cfg \<le> d \<and> d \<le> WATER_BRIDGE_MAXDIST cfg"
  by (auto simp: acceptor_water_pairs_def Let_def split: if_splits)

lemma donor_water_pairs_iff:
  "(don, w, d, ang) \<in> set (donor_water_pairs cfg hbd ws) \<longleftrightarrow>
     don \<in> set hbd \<and> w \<in> set ws \<and> d = dist3 (coords (don_d don)) (coords (oxy w)) \<and>
     ang = vecangle (vector (coords (don_h don)) (coords (don_d don)))
                    (vector (coords (don_h don)) (coords (oxy w))) \<and>
     WATER_BRIDGE_MINDIST cfg \<le> d \<and> d \<le> WATER_BRIDGE_MAXDIST cfg \<and>
     ang > WATER_BRIDGE_THETA_MIN cfg"
  by (auto simp: donor_water_pairs_def Let_def split: if_splits)

lemma bridge_pair_record:
  "r \<in> set (bridge_pair cfg pd ((acc, wl, daw), (don, wd, ddw, dang))) \<Longrightarrow>
     oxy wl = oxy wd \<and> wb_water r = oxy wl \<and> wb_a r = acc_a acc \<and> wb_d r = don_d don \<and>
     wb_h r = don_h don \<and> wb_distance_aw r = daw \<and> wb_distance_dw r = ddw \<and>
     wb_d_angle r = dang \<and> wb_protisdon r = pd \<and>
     wb_w_angle r = vecangle (vector (coords (acc_a acc)) (coords (oxy wl)))
                             (vector (coords (oxy wl)) (coords (don_h don))) \<and>
     WATER_BRIDGE_OMEGA_MIN cfg < wb_w_angle r \<and> wb_w_angle r < WATER_BRIDGE_OMEGA_MAX cfg"
  by (auto simp: bridge_pair_def Let_def split: if_splits)

lemma water_bridges_cases:
  assumes "r \<in> set (water_bridges cfg bs_hba lig_hba bs_hbd lig_hbd waters)"
  shows "\<exists>acc wl daw don wd ddw dang.
     ((acc, wl, daw) \<in> set (acceptor_water_pairs cfg lig_hba waters) \<and>
      (don, wd, ddw, dang) \<in> set (donor_water_pairs cfg bs_hbd waters) \<and> wb_protisdon r \<or>
      (acc, wl, daw) \<in> set (acceptor_water_pairs cfg bs_hba waters) \<and>
      (don, wd, ddw, dang) \<in> set (donor_water_pairs cfg lig_hbd waters) \<and> \<not> wb_protisdon r) \<and>
     r \<in> set (bridge_pair cfg (wb_protisdon r) ((acc, wl, daw), (don, wd, ddw, dang)))"
proof -
  from assms consider
    (lig) x where "x \<in> set (List.product (acceptor_water_pairs cfg lig_hba waters)
                         (donor_water_pairs cfg bs_hbd waters))" "r \<in> set (bridge_pair cfg True x)"
  | (prot) x where "x \<in> set (List.product (acceptor_water_pairs cfg bs_hba waters)
                         (donor_water_pairs cfg lig_hbd waters))" "r \<in> set (bridge_pair cfg False x)"
    by (auto simp: water_bridges_def Let_def)
  then show ?thesis
  proof cases
    case lig
    obtain acc wl daw don wd ddw dang where x: "x = ((acc, wl, daw), (don, wd, ddw, dang))"
      by (metis prod.exhaust)
    from lig(2) have pd: "wb_protisdon r" unfolding x by (auto dest: bridge_pair_record)
    from lig(1) have a: "(acc, wl, daw) \<in> set (acceptor_water_pairs cfg lig_hba waters)"
      and d: "(don, wd, ddw, dang) \<in> set (donor_water_pairs cfg bs_hbd waters)"
      unfolding x by simp_all
    from lig(2) pd have "r \<in> set (bridge_pair cfg (wb_protisdon r) ((acc, wl, daw), (don, wd, ddw, dang)))"
      unfolding x by simp
    with a d pd show ?thesis
      by (rule_tac x = acc in exI, rule_tac x = wl in exI, rule_tac x = daw in exI,
          rule_tac x = don in exI, rule_tac x = wd in exI, rule_tac x = ddw in exI,
          rule_tac x = dang in exI) blast
  next
    case prot
    obtain acc wl daw don wd ddw dang where x: "x = ((acc, wl, daw), (don, wd, ddw, dang))"
      by (metis prod.exhaust)
    from prot(2) have pd: "\<not> wb_protisdon r" unfolding x by (auto dest: bridge_pair_record)
    from prot(1) have a: "(acc, wl, daw) \<in> set (acceptor_water_pairs cfg bs_hba waters)"
      and d: "(don, wd, ddw, dang) \<in> set (donor_water_pairs cfg lig_hbd waters)"
      unfolding x by simp_all
    from prot(2) pd have "r \<in> set (bridge_pair cfg (wb_protisdon r) ((acc, wl, daw), (don, wd, ddw, dang)))"
      unfolding x by simp
    with a d pd show ?thesis
      by (rule_tac x = acc in exI, rule_tac x = wl in exI, rule_tac x = daw in exI,
          rule_tac x = don in exI, rule_tac x = wd in exI, rule_tac x = ddw in exI,
          rule_tac x = dang in exI) blast
  qed
qed

lemma water_bridges_threshold:
  assumes "r \<in> set (water_bridges cfg bs_hba lig_hba bs_hbd lig_hbd waters)"
  shows "WATER_BRIDGE_MINDIST cfg \<le> wb_distance_aw r \<and> wb_distance_aw r \<le> WATER_BRIDGE_MAXDIST cfg \<and>
         WATER_BRIDGE_MINDIST cfg \<le> wb_distance_dw r \<and> wb_distance_dw r \<le> WATER_BRIDGE_MAXDIST cfg \<and>
         wb_d_angle r > WATER_BRIDGE_THETA_MIN cfg \<and>
         WATER_BRIDGE_OMEGA_MIN cfg < wb_w_angle r \<and> wb_w_angle r < WATER_BRIDGE_OMEGA_MAX cfg"
proof -
  from water_bridges_cases [OF assms] obtain acc wl daw don wd ddw dang hba hbd where
    a: "(acc, wl, daw) \<in> set (acceptor_water_pairs cfg hba waters)" and
    d: "(don, wd, ddw, dang) \<in> set (donor_water_pairs cfg hbd waters)" and
    r: "r \<in> set (bridge_pair cfg (wb_protisdon r) ((acc, wl, daw), (don, wd, ddw, dang)))"
    by blast
  from a have "WATER_BRIDGE_MINDIST cfg \<le> daw \<and> daw \<le> WATER_BRIDGE_MAXDIST cfg"
    by (simp add: acceptor_water_pairs_iff)
  moreover from d have "WATER_BRIDGE_MINDIST cfg \<le> ddw \<and> ddw \<le> WATER_BRIDGE_MAXDIST cfg \<and>
      dang > WATER_BRIDGE_THETA_MIN cfg"
    by (simp add: donor_water_pairs_iff)
  moreover have "wb_distance_aw r = daw" "wb_distance_dw r = ddw" "wb_d_angle r = dang"
      "WATER_BRIDGE_OMEGA_MIN cfg < wb_w_angle r" "wb_w_angle r < WATER_BRIDGE_OMEGA_MAX cfg"
    using bridge_pair_record [OF r] by blast+
  ultimately show ?thesis by blast
qed

lemma dict_append_cases:
  "(k', vs') \<in> set (dict_append k v d) \<Longrightarrow>
     (k', vs') \<in> set d \<or> (k' = k \<and> (vs' = [v] \<or> (\<exists>vs. (k, vs) \<in> set d \<and> vs' = vs @ [v])))"
  by (induction k v d rule: dict_append.induct) (auto split: if_splits)

lemma within_reachD:
  "within_reach cfg pd \<Longrightarrow> (mt, pairs) \<in> set pd \<Longrightarrow> (t, d) \<in> set pairs \<Longrightarrow>
     d < METAL_DIST_MAX cfg \<and> d = dist3 (coords mt) (coords (tg_atom t))"
  by (fastforce simp: within_reach_def list_all_iff)

lemma within_reachI:
  "(\<And>mt pairs t d. (mt, pairs) \<in> set pd \<Longrightarrow> (t, d) \<in> set pairs \<Longrightarrow>
      d < METAL_DIST_MAX cfg \<and> d = dist3 (coords mt) (coords (tg_atom t))) \<Longrightarrow> within_reach cfg pd"
  by (fastforce simp: within_reach_def list_all_iff)

lemma pairing_step_within_reach:
  assumes "within_reach cfg (fst s)"
  shows "within_reach cfg (fst (pairing_step cfg x s))"
proof -
  obtain metal target where x: "x = (metal, target)" by (cases x)
  obtain pd ids where s: "s = (pd, ids)" by (cases s)
  let ?d = "dist3 (coords (metal_m metal)) (coords (tg_atom target))"
  show ?thesis
  proof (cases "?d < METAL_DIST_MAX cfg")
    case False
    with assms show ?thesis by (simp add: x s pairing_step_def)
  next
    case True
    have "within_reach cfg (pd @ [(metal_m metal, [(target, ?d)])])"
      using assms True by (simp add: s within_reach_def)
    moreover have "within_reach cfg (dict_append (metal_m metal) (target, ?d) pd)"
    proof (rule within_reachI)
      fix mt pairs t d
      assume a: "(mt, pairs) \<in> set (dict_append (metal_m metal) (target, ?d) pd)"
        and b: "(t, d) \<in> set pairs"
      from dict_append_cases [OF a] b True within_reachD [of cfg pd] assms
      show "d < METAL_DIST_MAX cfg \<and> d = dist3 (coords mt) (coords (tg_atom t))"
        by (auto simp: s)
    qed
    ultimately show ?thesis using True by (simp add: x s pairing_step_def Let_def)
  qed
qed

lemma fold_pairing_within_reach:
  "within_reach cfg (fst s) \<Longrightarrow> within_reach cfg (fst (fold (pairing_step cfg) xs s))"
  by (induction xs arbitrary: s) (simp_all add: pairing_step_within_reach)

lemma pairings_of_within_reach: "within_reach cfg (fst (pairings_of cfg metals targets))"
  unfolding pairings_of_def by (rule fold_pairing_within_reach) (simp add: within_reach_def)

lemma complex_records_distance:
  "complex_records cnum mt mid pairs dec = Inr rs \<Longrightarrow> r \<in> set rs \<Longrightarrow>
     (mc_target r, mc_distance r) \<in> set pairs \<and> mc_metal r = mt"
  by (cases dec) (auto simp: complex_records_def Let_def split: if_splits)

lemma complex_of_distance:
  "complex_of ids (cnum, mt, pairs) = Inr rs \<Longrightarrow> r \<in> set rs \<Longrightarrow>
     (mc_target r, mc_distance r) \<in> set pairs \<and> mc_metal r = mt"
  by (auto simp: complex_of_def split: sum.splits option.splits dest: complex_records_distance)

lemma metal_complexation_threshold:
  assumes "metal_complexation cfg metals lig bs = Inr rs" and "r \<in> set rs"
  shows "mc_distance r < METAL_DIST_MAX cfg \<and>
         mc_distance r = dist3 (coords (mc_metal r)) (coords (tg_atom (mc_target r)))"
proof -
  obtain pd ids where p: "pairings_of cfg metals (lig @ bs) = (pd, ids)"
    by (cases "pairings_of cfg metals (lig @ bs)")
  from assms(1) have "collect (complex_of ids) (enumerate 0 pd) = Inr rs"
    by (simp add: metal_complexation_def p)
  from collect_Inr [OF this assms(2)] obtain cnum mt pairs ys where
    e: "(cnum, mt, pairs) \<in> set (enumerate 0 pd)" and
    c: "complex_of ids (cnum, mt, pairs) = Inr ys" and y: "r \<in> set ys"
    by (metis prod.exhaust)
  from e have "(mt, pairs) \<in> set pd" by (auto simp: in_set_enumerate_eq dest: nth_mem)
  moreover from pairings_of_within_reach [of cfg metals "lig @ bs"] have "within_reach cfg pd"
    by (simp add: p)
  ultimately show ?thesis using complex_of_distance [OF c y] within_reachD by blast
qed

text \<open>
  C8: every record a detector emits satisfies the threshold predicate of its own class.
  For each detector, and for every input on which it returns its list of records, the
  stored measurements of every record are inside the bounds that the detector tests: the
  hydrophobic distance is below \<open>HYDROPH_DIST_MAX\<close>, the salt bridge distance is below
  \<open>SALTBRIDGE_DIST_MAX\<close>, the halogen bond distance is below \<open>HALOGEN_DIST_MAX\<close> and both
  of its angles are inside their windows, and likewise for hydrogen bonds, pi-stackings,
  pi-cation interactions, water bridges and metal complexes.
\<close>

theorem records_satisfy_thresholds:
  "(\<forall>r\<in>set (hydrophobic_interactions cfg atom_set_a atom_set_b).
      hyd_distance r < HYDROPH_DIST_MAX cfg \<and>
      hyd_distance r = dist3 (coords (hyd_bsatom r)) (coords (hyd_ligatom r))) \<and>
   (\<forall>r\<in>set (saltbridge cfg poscenter negcenter protispos).
      sb_distance r < SALTBRIDGE_DIST_MAX cfg \<and>
      sb_distance r = dist3 (ch_center (sb_positive r)) (ch_center (sb_negative r))) \<and>
   (\<forall>rs. halogen cfg acceptor donor = Inr rs \<longrightarrow> (\<forall>r\<in>set rs.
      xb_distance r < HALOGEN_DIST_MAX cfg \<and>
      HALOGEN_ACC_ANGLE cfg - HALOGEN_ANGLE_DEV cfg < xb_acc_angle r \<and>
      xb_acc_angle r < HALOGEN_ACC_ANGLE cfg + HALOGEN_ANGLE_DEV cfg \<and>
      HALOGEN_DON_ANGLE cfg - HALOGEN_ANGLE_DEV cfg < xb_don_angle r \<and>
      xb_don_angle r < HALOGEN_DON_ANGLE cfg + HALOGEN_ANGLE_DEV cfg)) \<and>
   (\<forall>rs. hbonds cfg acceptors donor_pairs protisdon typ = Inr rs \<longrightarrow> (\<forall>r\<in>set rs.
      hb_distance_ad r < HBOND_DIST_MAX cfg \<and> hb_angle r > HBOND_DON_ANGLE_MIN cfg)) \<and>
   (\<forall>rs. pistacking cfg rings_bs rings_lig = Inr rs \<longrightarrow> (\<forall>r\<in>set rs.
      ps_distance r < PISTACK_DIST_MAX cfg \<and> ps_offset r < PISTACK_OFFSET_MAX cfg \<and>
      (ps_type r = ''P'' \<and> 0 < ps_angle r \<and> ps_angle r < PISTACK_ANG_DEV cfg \<or>
       ps_type r = ''T'' \<and> 90 - PISTACK_ANG_DEV cfg < ps_angle r \<and>
         ps_angle r < 90 + PISTACK_ANG_DEV cfg))) \<and>
   (\<forall>rs. pication cfg rings pos_charged protcharged = Inr rs \<longrightarrow> (\<forall>r\<in>set rs.
      pc_distance r < PICATION_DIST_MAX cfg \<and> pc_offset r < PISTACK_OFFSET_MAX cfg)) \<and>
   (\<forall>r\<in>set (water_bridges cfg bs_hba lig_hba bs_hbd lig_hbd waters).
      WATER_BRIDGE_MINDIST cfg \<le> wb_distance_aw r \<and> wb_distance_aw r \<le> WATER_BRIDGE_MAXDIST cfg \<and>
      WATER_BRIDGE_MINDIST cfg \<le> wb_distance_dw r \<and> wb_distance_dw r \<le> WATER_BRIDGE_MAXDIST cfg \<and>
      wb_d_angle r > WATER_BRIDGE_THETA_MIN cfg \<and>
      WATER_BRIDGE_OMEGA_MIN cfg < wb_w_angle r \<and> wb_w_angle r < WATER_BRIDGE_OMEGA_MAX cfg) \<and>
   (\<forall>rs. metal_complexation cfg metals metal_binding_lig metal_binding_bs = Inr rs \<longrightarrow>
      (\<forall>r\<in>set rs. mc_distance r < METAL_DIST_MAX cfg \<and>
         mc_distance r = dist3 (coords (mc_metal r)) (coords (tg_atom (mc_target r)))))"
proof (intro conjI)
  show "\<forall>r\<in>set (hydrophobic_interactions cfg atom_set_a atom_set_b).
      hyd_distance r < HYDROPH_DIST_MAX cfg \<and>
      hyd_distance r = dist3 (coords (hyd_bsatom r)) (coords (hyd_ligatom r))"
    by (rule ballI) (rule hydrophobic_threshold)
  show "\<forall>r\<in>set (saltbridge cfg poscenter negcenter protispos).
      sb_distance r < SALTBRIDGE_DIST_MAX cfg \<and>
      sb_distance r = dist3 (ch_center (sb_positive r)) (ch_center (sb_negative r))"
    by (rule ballI) (rule saltbridge_threshold)
  show "\<forall>rs. halogen cfg acceptor donor = Inr rs \<longrightarrow> (\<forall>r\<in>set rs.
      xb_distance r < HALOGEN_DIST_MAX cfg \<and>
      HALOGEN_ACC_ANGLE cfg - HALOGEN_ANGLE_DEV cfg < xb_acc_angle r \<and>
      xb_acc_angle r < HALOGEN_ACC_ANGLE cfg + HALOGEN_ANGLE_DEV cfg \<and>
      HALOGEN_DON_ANGLE cfg - HALOGEN_ANGLE_DEV cfg < xb_don_angle r \<and>
      xb_don_angle r < HALOGEN_DON_ANGLE cfg + HALOGEN_ANGLE_DEV cfg)"
    by (intro allI impI ballI) (rule halogen_threshold)
  show "\<forall>rs. hbonds cfg acceptors donor_pairs protisdon typ = Inr rs \<longrightarrow> (\<forall>r\<in>set rs.
      hb_distance_ad r < HBOND_DIST_MAX cfg \<and> hb_angle r > HBOND_DON_ANGLE_MIN cfg)"
    by (intro allI impI ballI) (rule hbonds_threshold)
  show "\<forall>rs. pistacking cfg rings_bs rings_lig = Inr rs \<longrightarrow> (\<forall>r\<in>set rs.
      ps_distance r < PISTACK_DIST_MAX cfg \<and> ps_offset r < PISTACK_OFFSET_MAX cfg \<and>
      (ps_type r = ''P'' \<and> 0 < ps_angle r \<and> ps_angle r < PISTACK_ANG_DEV cfg \<or>
       ps_type r = ''T'' \<and> 90 - PISTACK_ANG_DEV cfg < ps_angle r \<and>
         ps_angle r < 90 + PISTACK_ANG_DEV cfg))"
    by (intro allI impI ballI) (rule pistacking_threshold)
  show "\<forall>rs. pication cfg rings pos_charged protcharged = Inr rs \<longrightarrow> (\<forall>r\<in>set rs.
      pc_distance r < PICATION_DIST_MAX cfg \<and> pc_offset r < PISTACK_OFFSET_MAX cfg)"
    by (intro allI impI ballI) (rule pication_threshold)
  show "\<forall>r\<in>set (water_bridges cfg bs_hba lig_hba bs_hbd lig_hbd waters).
      WATER_BRIDGE_MINDIST cfg \<le> wb_distance_aw r \<and> wb_distance_aw r \<le> WATER_BRIDGE_MAXDIST cfg \<and>
      WATER_BRIDGE_MINDIST cfg \<le> wb_distance_dw r \<and> wb_distance_dw r \<le> WATER_BRIDGE_MAXDIST cfg \<and>
      wb_d_angle r > WATER_BRIDGE_THETA_MIN cfg \<and>
      WATER_BRIDGE_OMEGA_MIN cfg < wb_w_angle r \<and> wb_w_angle r < WATER_BRIDGE_OMEGA_MAX cfg"
    by (rule ballI) (rule water_bridges_threshold)
  show "\<forall>rs. metal_complexation cfg metals metal_binding_lig metal_binding_bs = Inr rs \<longrightarrow>
      (\<forall>r\<in>set rs. mc_distance r < METAL_DIST_MAX cfg \<and>
         mc_distance r = dist3 (coords (mc_metal r)) (coords (tg_atom (mc_target r))))"
    by (intro allI impI ballI) (rule metal_complexation_threshold)
qed

text \<open>
  An instance of C8: a hydrophobic contact and a salt bridge at distance 3 are emitted, and
  their stored distances are below the thresholds 4 and 5.5.
\<close>

theorem records_satisfy_thresholds_witness:
  "hydrophobic_interactions example_config
      [\<lparr>hp_atom = example_atom 1 (0, 0, 0), hp_orig_idx = 1\<rparr>]
      [\<lparr>hp_atom = example_atom 2 (3, 0, 0), hp_orig_idx = 2\<rparr>] \<noteq> [] \<and>
   hyd_distance (hd (hydrophobic_interactions example_config
      [\<lparr>hp_atom = example_atom 1 (0, 0, 0), hp_orig_idx = 1\<rparr>]
      [\<lparr>hp_atom = example_atom 2 (3, 0, 0), hp_orig_idx = 2\<rparr>])) < 4 \<and>
   saltbridge example_config [example_charge 1 (0, 0, 0)] [example_charge 2 (0, 3, 0)] True \<noteq> [] \<and>
   sb_distance (hd (saltbridge example_config [example_charge 1 (0, 0, 0)]
      [example_charge 2 (0, 3, 0)] True)) < 5.5"
proof -
  let ?h = "hydrophobic_interactions example_config
      [\<lparr>hp_atom = example_atom 1 (0, 0, 0), hp_orig_idx = 1\<rparr>]
      [\<lparr>hp_atom = example_atom 2 (3, 0, 0), hp_orig_idx = 2\<rparr>]"
  let ?s = "saltbridge example_config [example_charge 1 (0, 0, 0)] [example_charge 2 (0, 3, 0)] True"
  have h: "?h \<noteq> []"
    by (simp add: hydrophobic_interactions_def example_config_def example_atom_def sqrt_9)
  have s: "?s \<noteq> []"
    by (simp add: saltbridge_def example_config_def example_charge_def sqrt_9)
  note inst = records_satisfy_thresholds
      [of example_config "[\<lparr>hp_atom = example_atom 1 (0, 0, 0), hp_orig_idx = 1\<rparr>]"
          "[\<lparr>hp_atom = example_atom 2 (3, 0, 0), hp_orig_idx = 2\<rparr>]"
          "[example_charge 1 (0, 0, 0)]" "[example_charge 2 (0, 3, 0)]" True]
  from h have "hd ?h \<in> set ?h" by simp
  from bspec [OF inst [THEN conjunct1] this]
  have "hyd_distance (hd ?h) < HYDROPH_DIST_MAX example_config" by (rule conjunct1)
  moreover from s have "hd ?s \<in> set ?s" by simp
  from bspec [OF inst [THEN conjunct2, THEN conjunct1] this]
  have "sb_distance (hd ?s) < SALTBRIDGE_DIST_MAX example_config" by (rule conjunct1)
  ultimately show ?thesis using h s by (simp add: example_config_def)
qed

section \<open>Water bridges share their water\<close>

text \<open>
  C9: every water bridge record combines an acceptor-water half-bridge and a donor-water
  half-bridge of the two opposite sides whose waters have the identical oxygen atom, which
  is the water the record stores, and the angle at the water that the record stores lies
  strictly between \<open>WATER_BRIDGE_OMEGA_MIN\<close> and \<open>WATER_BRIDGE_OMEGA_MAX\<close>.
\<close>

theorem water_bridges_same_water:
  assumes "r \<in> set (water_bridges cfg bs_hba lig_hba bs_hbd lig_hbd waters)"
  shows "\<exists>acc wl daw don wd ddw dang.
     ((acc, wl, daw) \<in> set (acceptor_water_pairs cfg lig_hba waters) \<and>
      (don, wd, ddw, dang) \<in> set (donor_water_pairs cfg bs_hbd waters) \<and> wb_protisdon r \<or>
      (acc, wl, daw) \<in> set (acceptor_water_pairs cfg bs_hba waters) \<and>
      (don, wd, ddw, dang) \<in> set (donor_water_pairs cfg lig_hbd waters) \<and> \<not> wb_protisdon r) \<and>
     oxy wl = oxy wd \<and> wb_water r = oxy wl \<and>
     wb_a r = acc_a acc \<and> wb_d r = don_d don \<and> wb_h r = don_h don \<and>
     wb_distance_aw r = daw \<and> wb_distance_dw r = ddw \<and> wb_d_angle r = dang \<and>
     wb_w_angle r = vecangle (vector (coords (acc_a acc)) (coords (oxy wl)))
                             (vector (coords (oxy wl)) (coords (don_h don))) \<and>
     WATER_BRIDGE_OMEGA_MIN cfg < wb_w_angle r \<and> wb_w_angle r < WATER_BRIDGE_OMEGA_MAX cfg"
proof -
  from water_bridges_cases [OF assms] obtain acc wl daw don wd ddw dang where
    h: "(acc, wl, daw) \<in> set (acceptor_water_pairs cfg lig_hba waters) \<and>
        (don, wd, ddw, dang) \<in> set (donor_water_pairs cfg bs_hbd waters) \<and> wb_protisdon r \<or>
        (acc, wl, daw) \<in> set (acceptor_water_pairs cfg bs_hba waters) \<and>
        (don, wd, ddw, dang) \<in> set (donor_water_pairs cfg lig_hbd waters) \<and> \<not> wb_protisdon r"
    and r: "r \<in> set (bridge_pair cfg (wb_protisdon r) ((acc, wl, daw), (don, wd, ddw, dang)))"
    by blast
  from bridge_pair_record [OF r] h show ?thesis
    by (rule_tac x = acc in exI, rule_tac x = wl in exI, rule_tac x = daw in exI,
          rule_tac x = don in exI, rule_tac x = wd in exI, rule_tac x = ddw in exI,
          rule_tac x = dang in exI) blast
qed

lemma example_bridge:
  "water_bridges example_config [] [example_acceptor] [example_donor] [] [example_water] =
     [\<lparr>wb_a = example_atom 2 (3, 0, 0), wb_a_orig_idx = 2, wb_atype = ''X'',
       wb_d = example_atom 3 (0, 3, 0), wb_d_orig_idx = 3, wb_dtype = ''X'',
       wb_h = example_atom 4 (0, 2, 0), wb_water = example_atom 1 (0, 0, 0),
       wb_water_orig_idx = 1, wb_distance_aw = 3, wb_distance_dw = 3, wb_d_angle = 180,
       wb_w_angle = 90, wb_type = ''first_deg'', wb_resnr = Some 1, wb_restype = Some ''RES'',
       wb_reschain = Some ''A'', wb_protisdon = True\<rparr>]"
proof -
  have a: "vecangle (0, 1, 0) (0, - 2, 0) = 180"
    by (simp add: vecangle_opposite)
  have b: "vecangle (- 3, 0, 0) (0, 2, 0) = 90"
    by (simp add: vecangle_orthogonal)
  have aw: "acceptor_water_pairs example_config [example_acceptor] [example_water] =
      [(example_acceptor, example_water, 3)]"
    by (simp add: acceptor_water_pairs_def example_config_def example_acceptor_def
        example_water_def example_atom_def sqrt_9)
  have dw: "donor_water_pairs example_config [example_donor] [example_water] =
      [(example_donor, example_water, 3, 180)]"
    by (simp add: donor_water_pairs_def example_config_def example_donor_def
        example_water_def example_atom_def sqrt_9 a)
  have e1: "acceptor_water_pairs example_config [] [example_water] = []"
    by (simp add: acceptor_water_pairs_def)
  have e2: "donor_water_pairs example_config [] [example_water] = []"
    by (simp add: donor_water_pairs_def)
  show ?thesis
    unfolding water_bridges_def Let_def aw dw e1 e2
    by (simp add: bridge_pair_def example_config_def example_donor_def example_acceptor_def
        example_water_def example_atom_def b whichrestype_def whichresnumber_def whichchain_def)
qed

text \<open>
  An instance of C9: a ligand acceptor and a protein donor around one water give one
  record, with the angle 90 at the water.
\<close>

theorem water_bridges_same_water_witness:
  "\<exists>r acc wl daw don wd ddw dang.
     r \<in> set (water_bridges example_config [] [example_acceptor] [example_donor] [] [example_water]) \<and>
     (acc, wl, daw) \<in> set (acceptor_water_pairs example_config [example_acceptor] [example_water]) \<and>
     (don, wd, ddw, dang) \<in> set (donor_water_pairs example_config [example_donor] [example_water]) \<and>
     oxy wl = oxy wd \<and> wb_water r = oxy wl \<and> wb_w_angle r = 90 \<and>
     WATER_BRIDGE_OMEGA_MIN example_config < wb_w_angle r \<and>
     wb_w_angle r < WATER_BRIDGE_OMEGA_MAX example_config"
proof -
  let ?rs = "water_bridges example_config [] [example_acceptor] [example_donor] [] [example_water]"
  have m: "hd ?rs \<in> set ?rs" and w: "wb_w_angle (hd ?rs) = 90"
    by (simp_all add: example_bridge)
  have e1: "acceptor_water_pairs example_config [] [example_water] = []"
    by (simp add: acceptor_water_pairs_def)
  from water_bridges_same_water [OF m] obtain acc wl daw don wd ddw dang where
    d: "(acc, wl, daw) \<in> set (acceptor_water_pairs example_config [example_acceptor] [example_water]) \<and>
        (don, wd, ddw, dang) \<in> set (donor_water_pairs example_config [example_donor] [example_water]) \<and>
        wb_protisdon (hd ?rs) \<or>
        (acc, wl, daw) \<in> set (acceptor_water_pairs example_config [] [example_water]) \<and>
        (don, wd, ddw, dang) \<in> set (donor_water_pairs example_config [] [example_water]) \<and>
        \<not> wb_protisdon (hd ?rs)"
    and same: "oxy wl = oxy wd" "wb_water (hd ?rs) = oxy wl"
    and omega: "WATER_BRIDGE_OMEGA_MIN example_config < wb_w_angle (hd ?rs)"
      "wb_w_angle (hd ?rs) < WATER_BRIDGE_OMEGA_MAX example_config"
    by blast
  from d have "(acc, wl, daw) \<in> set (acceptor_water_pairs example_config [example_acceptor] [example_water]) \<and>
      (don, wd, ddw, dang) \<in> set (donor_water_pairs example_config [example_donor] [example_water])"
    unfolding e1 by simp
  with m w same omega show ?thesis by blast
qed

section \<open>A metal with a single target\<close>

lemma collect_complete:
  "collect f xs = Inr rs \<Longrightarrow> x \<in> set xs \<Longrightarrow> \<exists>ys. f x = Inr ys \<and> set ys \<subseteq> set rs"
proof (induction xs arbitrary: rs)
  case Nil
  then show ?case by simp
next
  case (Cons y xs)
  from Cons.prems(1) obtain as bs where
    a: "f y = Inr as" and b: "collect f xs = Inr bs" and r: "rs = as @ bs"
    by (auto split: sum.splits)
  show ?case
  proof (cases "x = y")
    case True
    with a r show ?thesis by auto
  next
    case False
    with Cons.prems(2) have "x \<in> set xs" by simp
    from Cons.IH [OF b this] r show ?thesis by auto
  qed
qed

lemma dict_append_keys:
  "map_of d k \<noteq> None \<Longrightarrow> map fst (dict_append k v d) = map fst d"
  by (induction k v d rule: dict_append.induct) auto

lemma pairing_step_distinct:
  assumes "distinct (map fst (fst s))"
  shows "distinct (map fst (fst (pairing_step cfg x s)))"
proof -
  obtain metal target where x: "x = (metal, target)" by (cases x)
  obtain pd ids where s: "s = (pd, ids)" by (cases s)
  show ?thesis
    using assms
    by (auto simp: x s pairing_step_def Let_def dict_append_keys map_of_eq_None_iff)
qed

lemma fold_pairing_distinct:
  "distinct (map fst (fst s)) \<Longrightarrow> distinct (map fst (fst (fold (pairing_step cfg) xs s)))"
  by (induction xs arbitrary: s) (simp_all add: pairing_step_distinct)

lemma pairings_of_distinct: "distinct (map fst (fst (pairings_of cfg metals targets)))"
  unfolding pairings_of_def by (rule fold_pairing_distinct) simp

lemma classify_single:
  "classify (Suc 0) angles_dict =
     Inr (Some \<lparr>final_geom = ''NA'', final_coo = Coo 1, final_rms = 0, final_excluded = []\<rparr>)"
  by (simp add: classify_def)

lemma complex_of_single:
  assumes "complex_of ids (cnum, mt, [(t, d)]) = Inr ys"
  shows "(\<forall>r\<in>set ys. mc_coordination_num r = Coo 1 \<and> mc_geometry r = ''NA'' \<and> mc_rms r = 0 \<and>
            mc_num_partners r = 1 \<and> mc_target r = t) \<and>
         (tg_location t \<noteq> ''water'' \<longrightarrow>
            (\<exists>r\<in>set ys. mc_metal r = mt \<and> mc_target r = t \<and> mc_distance r = d))"
  using assms
  by (cases "map_of ids mt") (auto simp: complex_of_def classify_single complex_records_def split: if_splits)

lemma distinct_keys_unique:
  "distinct (map fst d) \<Longrightarrow> (k, v) \<in> set d \<Longrightarrow> (k, v') \<in> set d \<Longrightarrow> v = v'"
  by (meson eq_key_imp_eq_value)

text \<open>
  C3: a metal whose contact list holds exactly one target within \<open>METAL_DIST_MAX\<close> is
  classified with geometry "NA", coordination number 1, RMS 0 and no excluded target;
  every record emitted for that metal carries these values, and the record of the target
  is emitted (unless the target is a water, for which no complex is reported).
\<close>

theorem single_target_complex:
  assumes run: "metal_complexation cfg metals metal_binding_lig metal_binding_bs = Inr rs"
    and entry: "(metal, [(target, distance)]) \<in>
                  set (fst (pairings_of cfg metals (metal_binding_lig @ metal_binding_bs)))"
  shows "classify (length [(target, distance)]) (angles_of (vectors_of metal [(target, distance)])) =
           Inr (Some \<lparr>final_geom = ''NA'', final_coo = Coo 1, final_rms = 0, final_excluded = []\<rparr>) \<and>
         (\<forall>r\<in>set rs. mc_metal r = metal \<longrightarrow>
            mc_coordination_num r = Coo 1 \<and> mc_geometry r = ''NA'' \<and> mc_rms r = 0 \<and>
            mc_num_partners r = 1 \<and> mc_target r = target) \<and>
         (tg_location target \<noteq> ''water'' \<longrightarrow>
            (\<exists>r\<in>set rs. mc_metal r = metal \<and> mc_target r = target \<and> mc_distance r = distance))"
proof -
  obtain pd ids where p: "pairings_of cfg metals (metal_binding_lig @ metal_binding_bs) = (pd, ids)"
    by (cases "pairings_of cfg metals (metal_binding_lig @ metal_binding_bs)")
  from run have c: "collect (complex_of ids) (enumerate 0 pd) = Inr rs"
    by (simp add: metal_complexation_def p)
  from pairings_of_distinct [of cfg metals "metal_binding_lig @ metal_binding_bs"]
  have dist: "distinct (map fst pd)" by (simp add: p)
  from entry have e: "(metal, [(target, distance)]) \<in> set pd" by (simp add: p)
  then obtain cnum where "cnum < length pd" and "pd ! cnum = (metal, [(target, distance)])"
    by (auto simp: in_set_conv_nth)
  then have n: "(cnum, metal, [(target, distance)]) \<in> set (enumerate 0 pd)"
    by (simp add: in_set_enumerate_eq)
  from collect_complete [OF c n] obtain ys where
    ys: "complex_of ids (cnum, metal, [(target, distance)]) = Inr ys" and sub: "set ys \<subseteq> set rs"
    by blast
  have first: "classify (length [(target, distance)]) (angles_of (vectors_of metal [(target, distance)])) =
      Inr (Some \<lparr>final_geom = ''NA'', final_coo = Coo 1, final_rms = 0, final_excluded = []\<rparr>)"
    by (simp add: classify_single)
  have second: "mc_coordination_num r = Coo 1 \<and> mc_geometry r = ''NA'' \<and> mc_rms r = 0 \<and>
      mc_num_partners r = 1 \<and> mc_target r = target" if r: "r \<in> set rs" and mr: "mc_metal r = metal" for r
  proof -
    from collect_Inr [OF c r] obtain cnum' mt pairs zs where
      e': "(cnum', mt, pairs) \<in> set (enumerate 0 pd)" and
      z: "complex_of ids (cnum', mt, pairs) = Inr zs" and rz: "r \<in> set zs"
      by (metis prod.exhaust)
    from complex_of_distance [OF z rz] mr have "mt = metal" by simp
    moreover from e' have "(mt, pairs) \<in> set pd"
      by (auto simp: in_set_enumerate_eq dest: nth_mem)
    ultimately have "pairs = [(target, distance)]"
      using distinct_keys_unique [OF dist _ e] by blast
    with z \<open>mt = metal\<close> have "complex_of ids (cnum', metal, [(target, distance)]) = Inr zs" by simp
    from complex_of_single [OF this] rz show ?thesis by blast
  qed
  have third: "\<exists>r\<in>set rs. mc_metal r = metal \<and> mc_target r = target \<and> mc_distance r = distance"
    if "tg_location target \<noteq> ''water''"
    using complex_of_single [OF ys] that sub by blast
  from first second third show ?thesis by blast
qed

lemma example_single_pairings:
  "pairings_of example_config [example_metal] [example_target 11 (2, 0, 0)] =
     ([(metal_m example_metal, [(example_target 11 (2, 0, 0), 2)])], [(metal_m example_metal, 10)])"
  by (simp add: pairings_of_def pairing_step_def example_config_def example_metal_def
      example_target_def example_atom_def)

text \<open>
  An instance of C3: one metal with one protein target at distance 2.
\<close>

theorem single_target_complex_witness:
  "\<exists>rs r. metal_complexation example_config [example_metal] [example_target 11 (2, 0, 0)] [] = Inr rs \<and>
     r \<in> set rs \<and> mc_metal r = metal_m example_metal \<and> mc_target r = example_target 11 (2, 0, 0) \<and>
     mc_distance r = 2 \<and> mc_coordination_num r = Coo 1 \<and> mc_geometry r = ''NA'' \<and> mc_rms r = 0"
proof -
  let ?t = "example_target 11 (2, 0, 0)"
  have "\<exists>rs. metal_complexation example_config [example_metal] [?t] [] = Inr rs"
    by (simp add: metal_complexation_def example_single_pairings complex_of_def classify_single
        complex_records_def)
  then obtain rs where run: "metal_complexation example_config [example_metal] [?t] [] = Inr rs" ..
  have entry: "(metal_m example_metal, [(?t, 2)]) \<in>
      set (fst (pairings_of example_config [example_metal] ([?t] @ [])))"
    by (simp add: example_single_pairings)
  have loc: "tg_location ?t \<noteq> ''water''"
    by (simp add: example_target_def)
  note inst = single_target_complex [OF run entry]
  from inst [THEN conjunct2, THEN conjunct2] loc obtain r where
    r: "r \<in> set rs" "mc_metal r = metal_m example_metal" "mc_target r = ?t" "mc_distance r = 2"
    by blast
  from bspec [OF inst [THEN conjunct2, THEN conjunct1] r(1)] r(2)
  have "mc_coordination_num r = Coo 1 \<and> mc_geometry r = ''NA'' \<and> mc_rms r = 0" by blast
  with run r show ?thesis by blast
qed

section \<open>Parallel pi-stacking\<close>

lemma dist3_nonneg: "0 \<le> dist3 p q"
  by (cases p, cases q) simp

lemma pistack_pair_parallel:
  assumes "first (ring_atoms r) = Inr r0"
  shows "pistack_pair cfg (r, l) =
     (if stack_distance r l < PISTACK_DIST_MAX cfg then
        Inr ((if 0 < stack_angle r l \<and> stack_angle r l < PISTACK_ANG_DEV cfg \<and>
                 stack_offset r l < PISTACK_OFFSET_MAX cfg
              then [\<lparr>ps_proteinring = r, ps_ligandring = l, ps_distance = stack_distance r l,
                     ps_angle = stack_angle r l, ps_offset = stack_offset r l, ps_type = ''P'',
                     ps_restype = whichrestype r0, ps_resnr = whichresnumber r0,
                     ps_reschain = whichchain r0\<rparr>] else []) @
             (if 90 - PISTACK_ANG_DEV cfg < stack_angle r l \<and> stack_angle r l < 90 + PISTACK_ANG_DEV cfg \<and>
                 stack_offset r l < PISTACK_OFFSET_MAX cfg
              then [\<lparr>ps_proteinring = r, ps_ligandring = l, ps_distance = stack_distance r l,
                     ps_angle = stack_angle r l, ps_offset = stack_offset r l, ps_type = ''T'',
                     ps_restype = whichrestype r0, ps_resnr = whichresnumber r0,
                     ps_reschain = whichchain r0\<rparr>] else []))
      else Inr [])"
  using assms
  by (simp add: pistack_pair_def Let_def stack_distance_def stack_angle_def stack_offset_def)

lemma example_projection_axis: "projection (0, 0, 1) (0, 0, 0) (0, 0, 4) = (0, 0, 0)"
  by (simp add: projection_def Let_def sqrt_9 real_sqrt_abs [of 5, simplified])

lemma example_projection_axis3: "projection (0, 0, 1) (0, 0, 0) (0, 0, 3) = (0, 0, 0)"
  by (simp add: projection_def Let_def sqrt_16 real_sqrt_four)

lemma example_projection_axis3': "projection (0, 0, 1) (0, 0, 3) (0, 0, 0) = (0, 0, 3)"
  by (simp add: projection_def Let_def sqrt_16 real_sqrt_four)

lemma example_parallel_measures:
  "stack_distance (example_ring (0, 0, 0) (0, 0, 1)) (example_ring (0, 0, 3) (0, 0, 1)) = 3"
  "stack_angle (example_ring (0, 0, 0) (0, 0, 1)) (example_ring (0, 0, 3) (0, 0, 1)) = 0"
  "stack_offset (example_ring (0, 0, 0) (0, 0, 1)) (example_ring (0, 0, 3) (0, 0, 1)) = 0"
  by (simp_all add: stack_distance_def stack_angle_def stack_offset_def example_ring_def
      vecangle_def fold_angle_def sqrt_9 example_projection_axis3 example_projection_axis3')

text \<open>
  C6 (as stated in the specification): a ring pair within the distance and the offset
  bounds whose folded angle is within \<open>PISTACK_ANG_DEV\<close> of 0, a folded angle of exactly 0
  included, gets a parallel record. The code tests \<open>0 < a < PISTACK_ANG_DEV\<close>: two
  rings with equal normals, stacked at distance 3 with offset 0, have the folded angle 0
  and get no record.
\<close>

theorem pistacking_parallel_zero_counterexample:
  "stack_distance (example_ring (0, 0, 0) (0, 0, 1)) (example_ring (0, 0, 3) (0, 0, 1))
     < PISTACK_DIST_MAX example_config \<and>
   stack_angle (example_ring (0, 0, 0) (0, 0, 1)) (example_ring (0, 0, 3) (0, 0, 1)) = 0 \<and>
   stack_offset (example_ring (0, 0, 0) (0, 0, 1)) (example_ring (0, 0, 3) (0, 0, 1))
     < PISTACK_OFFSET_MAX example_config \<and>
   pistacking example_config [example_ring (0, 0, 0) (0, 0, 1)] [example_ring (0, 0, 3) (0, 0, 1)] = Inr []"
proof -
  have f: "first (ring_atoms (example_ring (0, 0, 0) (0, 0, 1))) = Inr (example_atom 20 (0, 0, 0))"
    by (simp add: example_ring_def)
  have "pistack_pair example_config (example_ring (0, 0, 0) (0, 0, 1), example_ring (0, 0, 3) (0, 0, 1)) = Inr []"
    unfolding pistack_pair_parallel [OF f] example_parallel_measures
    by (simp add: example_config_def)
  then show ?thesis
    by (simp add: pistacking_def example_parallel_measures example_config_def)
qed

text \<open>
  C6 (amended): for every ring pair whose center distance is below \<open>PISTACK_DIST_MAX\<close> and
  whose offset is below \<open>PISTACK_OFFSET_MAX\<close>, pistacking emits a parallel (type "P")
  record for the pair exactly when the folded angle is strictly between 0 and
  \<open>PISTACK_ANG_DEV\<close>.
\<close>

theorem pistacking_parallel:
  assumes "pistacking cfg rings_bs rings_lig = Inr rs"
    and "r \<in> set rings_bs" and "l \<in> set rings_lig"
    and "stack_distance r l < PISTACK_DIST_MAX cfg"
    and "stack_offset r l < PISTACK_OFFSET_MAX cfg"
  shows "(\<exists>p\<in>set rs. ps_type p = ''P'' \<and> ps_proteinring p = r \<and> ps_ligandring p = l \<and>
            ps_distance p = stack_distance r l \<and> ps_angle p = stack_angle r l \<and>
            ps_offset p = stack_offset r l)
         \<longleftrightarrow> 0 < stack_angle r l \<and> stack_angle r l < PISTACK_ANG_DEV cfg"
proof
  assume "\<exists>p\<in>set rs. ps_type p = ''P'' \<and> ps_proteinring p = r \<and> ps_ligandring p = l \<and>
            ps_distance p = stack_distance r l \<and> ps_angle p = stack_angle r l \<and>
            ps_offset p = stack_offset r l"
  then obtain p where p: "p \<in> set rs" "ps_type p = ''P''" "ps_angle p = stack_angle r l" by blast
  from pistacking_threshold [OF assms(1) p(1)] p(2,3)
  show "0 < stack_angle r l \<and> stack_angle r l < PISTACK_ANG_DEV cfg" by simp
next
  assume a: "0 < stack_angle r l \<and> stack_angle r l < PISTACK_ANG_DEV cfg"
  from assms(2,3) have "(r, l) \<in> set (List.product rings_bs rings_lig)" by simp
  from collect_complete [OF assms(1) [unfolded pistacking_def] this] obtain ys where
    ys: "pistack_pair cfg (r, l) = Inr ys" and sub: "set ys \<subseteq> set rs" by blast
  from ys obtain r0 where r0: "first (ring_atoms r) = Inr r0"
    by (cases "first (ring_atoms r)") (simp_all add: pistack_pair_def Let_def)
  let ?p = "\<lparr>ps_proteinring = r, ps_ligandring = l, ps_distance = stack_distance r l,
             ps_angle = stack_angle r l, ps_offset = stack_offset r l, ps_type = ''P'',
             ps_restype = whichrestype r0, ps_resnr = whichresnumber r0,
             ps_reschain = whichchain r0\<rparr>"
  from ys a assms(4,5) have "?p \<in> set ys"
    unfolding pistack_pair_parallel [OF r0] by auto
  with sub have "?p \<in> set rs" by blast
  then show "\<exists>p\<in>set rs. ps_type p = ''P'' \<and> ps_proteinring p = r \<and> ps_ligandring p = l \<and>
            ps_distance p = stack_distance r l \<and> ps_angle p = stack_angle r l \<and>
            ps_offset p = stack_offset r l"
    by (intro bexI [of _ ?p]) simp_all
qed

lemma sqrt_625: "sqrt 625 = 25"
  using real_sqrt_abs [of 25] by simp

lemma arccos_24_25: "0 < arccos (24 / 25) \<and> arccos (24 / 25) < pi / 6"
proof -
  have "0 < arccos (24 / 25)"
    using arccos_lt_bounded [of "24 / 25"] by simp
  moreover have "arccos (24 / 25) < arccos (sqrt 3 / 2)"
  proof (rule arccos_less_arccos)
    have "sqrt 3 < sqrt ((48 / 25) ^ 2)"
      unfolding real_sqrt_less_iff by (simp add: power2_eq_square)
    then show "sqrt 3 / 2 < 24 / 25" by simp
    have "0 \<le> sqrt 3" by simp
    then show "- 1 \<le> sqrt 3 / 2" by linarith
  qed simp
  moreover have "arccos (sqrt 3 / 2) = pi / 6"
    using arccos_cos [of "pi / 6"] by (simp add: cos_30)
  ultimately show ?thesis by simp
qed

lemma example_tilted_angle:
  "0 < stack_angle (example_ring (0, 0, 0) (0, 0, 1)) (example_ring (0, 0, 4) (0, 7, 24)) \<and>
   stack_angle (example_ring (0, 0, 0) (0, 0, 1)) (example_ring (0, 0, 4) (0, 7, 24)) < 30"
proof -
  have r: "round10 (24 / 25) = 24 / 25"
    by (simp add: round10_def)
  have v: "vecangle (0, 0, 1) (0, 7, 24) = arccos (24 / 25) * 180 / pi"
    by (simp add: vecangle_def sqrt_625 r)
  from arccos_24_25 have "0 < arccos (24 / 25) * 180 / pi \<and> arccos (24 / 25) * 180 / pi < 30"
    by (simp add: field_simps)
  then show ?thesis
    by (simp add: stack_angle_def example_ring_def v fold_angle_def min_def)
qed

lemma example_tilted_offset:
  "stack_offset (example_ring (0, 0, 0) (0, 0, 1)) (example_ring (0, 0, 4) (0, 7, 24)) = 0"
  using dist3_nonneg [of "projection (0, 7, 24) (0, 0, 4) (0, 0, 0)" "(0, 0, 4)"]
  by (simp add: stack_offset_def example_ring_def example_projection_axis)

text \<open>
  An instance of the amended C6: two rings at distance 4 whose normals enclose the angle
  arccos (24/25), about 16 degrees.
\<close>

theorem pistacking_parallel_witness:
  "\<exists>rs p. pistacking example_config [example_ring (0, 0, 0) (0, 0, 1)]
              [example_ring (0, 0, 4) (0, 7, 24)] = Inr rs \<and>
     p \<in> set rs \<and> ps_type p = ''P'' \<and> ps_proteinring p = example_ring (0, 0, 0) (0, 0, 1) \<and>
     ps_ligandring p = example_ring (0, 0, 4) (0, 7, 24) \<and> ps_distance p = 4 \<and> ps_offset p = 0"
proof -
  let ?r = "example_ring (0, 0, 0) (0, 0, 1)" and ?l = "example_ring (0, 0, 4) (0, 7, 24)"
  have f: "first (ring_atoms ?r) = Inr (example_atom 20 (0, 0, 0))"
    by (simp add: example_ring_def)
  have d: "stack_distance ?r ?l = 4"
    by (simp add: stack_distance_def example_ring_def sqrt_16)
  have "\<exists>ys. pistack_pair example_config (?r, ?l) = Inr ys"
    unfolding pistack_pair_parallel [OF f] by simp
  then obtain rs where run: "pistacking example_config [?r] [?l] = Inr rs"
    by (auto simp: pistacking_def)
  have "0 < stack_angle ?r ?l \<and> stack_angle ?r ?l < PISTACK_ANG_DEV example_config"
    using example_tilted_angle by (simp add: example_config_def)
  with pistacking_parallel [OF run, of ?r ?l] obtain p where
    "p \<in> set rs" "ps_type p = ''P''" "ps_proteinring p = ?r" "ps_ligandring p = ?l"
    "ps_distance p = stack_distance ?r ?l" "ps_offset p = stack_offset ?r ?l"
    by (auto simp: d example_tilted_offset example_config_def)
  with run d example_tilted_offset show ?thesis by auto
qed

section \<open>The tertiary amine branch of pication\<close>

lemma example_projection_axis6: "projection (0, 0, 1) (0, 0, 6) (0, 0, 3) = (0, 0, 6)"
  by (simp add: projection_def Let_def sqrt_16 real_sqrt_four)

lemma example_amine_scan:
  "pication_scan example_config False (example_ring (0, 0, 0) (0, 0, 1)) (example_amine # qs) =
     Inr [pication_contact (example_ring (0, 0, 0) (0, 0, 1)) example_amine 3 0
            (example_atom 20 (0, 0, 0)) False]"
  "pication_scan example_config False (example_ring (0, 0, 6) (0, 0, 1)) (example_amine # qs) =
     Inr [pication_contact (example_ring (0, 0, 6) (0, 0, 1)) example_amine 3 0
            (example_atom 20 (0, 0, 6)) False]"
proof -
  have v: "vecangle (0, 0, 1) (0, 0, - 1) = 180"
    by (simp add: vecangle_opposite)
  show "pication_scan example_config False (example_ring (0, 0, 0) (0, 0, 1)) (example_amine # qs) =
     Inr [pication_contact (example_ring (0, 0, 0) (0, 0, 1)) example_amine 3 0
            (example_atom 20 (0, 0, 0)) False]"
    by (simp add: Let_def example_config_def example_ring_def example_amine_def
        example_projection_axis3 sqrt_9 v fold_angle_def example_atom_def)
  show "pication_scan example_config False (example_ring (0, 0, 6) (0, 0, 1)) (example_amine # qs) =
     Inr [pication_contact (example_ring (0, 0, 6) (0, 0, 1)) example_amine 3 0
            (example_atom 20 (0, 0, 6)) False]"
    by (simp add: Let_def example_config_def example_ring_def example_amine_def
        example_projection_axis6 sqrt_9 v fold_angle_def example_atom_def)
qed

text \<open>
  C7 (as stated in the specification): for a tertiary-amine charge center the scan stops
  considering further rings after the first tested ring. In the code the rings are the
  outer loop and the \<open>break\<close> leaves the inner loop over the charge centers: the second
  ring is still tested against the same tertiary amine, and here both rings get a
  record with it.
\<close>

theorem pication_tertamine_rings_counterexample:
  "is_lcharge example_amine \<and> fgroup example_amine = ''tertamine'' \<and>
   (\<exists>c1 c2. pication example_config [example_ring (0, 0, 0) (0, 0, 1), example_ring (0, 0, 6) (0, 0, 1)]
               [example_amine] False = Inr [c1, c2] \<and>
      pc_charge c1 = example_amine \<and> pc_ring c1 = example_ring (0, 0, 0) (0, 0, 1) \<and>
      pc_charge c2 = example_amine \<and> pc_ring c2 = example_ring (0, 0, 6) (0, 0, 1))"
proof -
  have "pication example_config [example_ring (0, 0, 0) (0, 0, 1), example_ring (0, 0, 6) (0, 0, 1)]
          [example_amine] False =
        Inr [pication_contact (example_ring (0, 0, 0) (0, 0, 1)) example_amine 3 0
               (example_atom 20 (0, 0, 0)) False,
             pication_contact (example_ring (0, 0, 6) (0, 0, 1)) example_amine 3 0
               (example_atom 20 (0, 0, 6)) False]"
    by (simp add: pication_def example_amine_scan del: pication_scan.simps)
  moreover have "is_lcharge example_amine \<and> fgroup example_amine = ''tertamine''"
    by (simp add: example_amine_def)
  ultimately show ?thesis
    by (simp add: pication_contact_def)
qed

text \<open>
  C7 (amended): for every ring, once a tertiary-amine charge center has passed the distance
  and the offset test for that ring, no further charge center is scanned for that ring,
  whether or not the additional angle check accepted the amine: the scan of the ring over
  the charge centers gives the same result with and without the centers after the amine.
\<close>

theorem pication_tertamine_break:
  assumes "is_lcharge p" and "fgroup p = ''tertamine''"
    and "dist3 (center rg) (ch_center p) < PICATION_DIST_MAX cfg"
    and "dist3 (projection (normal rg) (center rg) (ch_center p)) (center rg) < PISTACK_OFFSET_MAX cfg"
  shows "pication_scan cfg protcharged rg (ps @ p # qs) = pication_scan cfg protcharged rg (ps @ [p])"
proof (induction ps)
  case Nil
  from assms show ?case by (simp add: Let_def)
next
  case (Cons q ps)
  show ?case by (simp only: append_Cons pication_scan.simps Cons.IH)
qed

text \<open>
  An instance of the amended C7: a charge center that would get a record with the ring on
  its own is skipped when it comes after the tertiary amine.
\<close>

theorem pication_tertamine_break_witness:
  "pication_scan example_config False (example_ring (0, 0, 0) (0, 0, 1))
      ([] @ example_amine # [example_charge 31 (0, 0, 3)]) =
   Inr [pication_contact (example_ring (0, 0, 0) (0, 0, 1)) example_amine 3 0
          (example_atom 20 (0, 0, 0)) False] \<and>
   pication_scan example_config False (example_ring (0, 0, 0) (0, 0, 1)) [example_charge 31 (0, 0, 3)] =
   Inr [pication_contact (example_ring (0, 0, 0) (0, 0, 1)) (example_charge 31 (0, 0, 3)) 3 0
          (example_atom 20 (0, 0, 0)) False]"
proof -
  let ?rg = "example_ring (0, 0, 0) (0, 0, 1)"
  have a: "is_lcharge example_amine" "fgroup example_amine = ''tertamine''"
    by (simp_all add: example_amine_def)
  have d: "dist3 (center ?rg) (ch_center example_amine) < PICATION_DIST_MAX example_config"
    by (simp add: example_ring_def example_amine_def example_config_def sqrt_9)
  have off: "dist3 (projection (normal ?rg) (center ?rg) (ch_center example_amine)) (center ?rg)
      < PISTACK_OFFSET_MAX example_config"
    by (simp add: example_ring_def example_amine_def example_config_def example_projection_axis3)
  have "pication_scan example_config False ?rg ([] @ example_amine # [example_charge 31 (0, 0, 3)]) =
      pication_scan example_config False ?rg ([] @ [example_amine])"
    by (rule pication_tertamine_break [OF a d off])
  moreover have "pication_scan example_config False ?rg [example_charge 31 (0, 0, 3)] =
      Inr [pication_contact ?rg (example_charge 31 (0, 0, 3)) 3 0 (example_atom 20 (0, 0, 0)) False]"
    by (simp add: Let_def example_config_def example_ring_def example_charge_def
        example_projection_axis3 sqrt_9)
  ultimately show ?thesis by (simp add: example_amine_scan del: pication_scan.simps)
qed

section \<open>The decision walk of the metal classifier\<close>

lemma candidate_sel [simp]:
  "geometry (candidate n a coo g) = g"
  "coordination (candidate n a coo g) = coo"
  "diff_targets (candidate n a coo g) = int n - int coo"
  "rms (candidate n a coo g) = fst (fit_geometry a (lookup ideal_angles g))"
  "excluded (candidate n a coo g) = snd (fit_geometry a (lookup ideal_angles g))"
  by (simp_all add: candidate_def)

lemma coo_order: "rev (sort (map fst configs)) = [6, 5, 4, 3, 2]"
  by (simp add: configs_def)

lemma lookup_configs:
  "lookup configs 6 = [''octahedral'']"
  "lookup configs 5 = [''trigonal.bipyramidal'', ''square.pyramidal'']"
  "lookup configs 4 = [''tetrahedral'', ''square.planar'']"
  "lookup configs 3 = [''trigonal.planar'', ''trigonal.pyramidal'']"
  "lookup configs 2 = [''linear'']"
  by (simp_all add: lookup_def configs_def)

lemma all_totals_eq:
  "all_totals n a =
     [candidate n a 6 ''octahedral'',
      candidate n a 5 ''trigonal.bipyramidal'', candidate n a 5 ''square.pyramidal'',
      candidate n a 4 ''tetrahedral'', candidate n a 4 ''square.planar'',
      candidate n a 3 ''trigonal.planar'', candidate n a 3 ''trigonal.pyramidal'',
      candidate n a 2 ''linear'']"
  unfolding all_totals_def coo_order
  by (simp add: lookup_configs candidate_def split_def Let_def)

lemma candidates_2:
  "candidates 2 a =
     [candidate 2 a 2 ''linear'',
      candidate 2 a 3 ''trigonal.planar'', candidate 2 a 3 ''trigonal.pyramidal'',
      candidate 2 a 4 ''tetrahedral'', candidate 2 a 4 ''square.planar'',
      candidate 2 a 5 ''trigonal.bipyramidal'', candidate 2 a 5 ''square.pyramidal'',
      candidate 2 a 6 ''octahedral'']"
  unfolding candidates_def all_totals_eq by simp

lemma candidates_6:
  "candidates 6 a =
     [candidate 6 a 6 ''octahedral'',
      candidate 6 a 5 ''trigonal.bipyramidal'', candidate 6 a 5 ''square.pyramidal'',
      candidate 6 a 4 ''tetrahedral'', candidate 6 a 4 ''square.planar'',
      candidate 6 a 3 ''trigonal.planar'', candidate 6 a 3 ''trigonal.pyramidal'',
      candidate 6 a 2 ''linear'']"
  unfolding candidates_def all_totals_eq by simp

lemma classify_candidates:
  "num_targets \<noteq> 1 \<Longrightarrow> classify num_targets a = decide 0 (candidates num_targets a) None"
  by (simp add: classify_def candidates_def)

lemma decide_undecided:
  assumes "i + 1 < length all_total" and "undecided all_total i"
  shows "decide i all_total cur = decide (i + 1) all_total cur"
proof -
  from assms(1) have "i \<noteq> length all_total - 1" and "i < length all_total" by arith+
  with assms show ?thesis
    by (subst decide.simps) (simp only: undecided_def Let_def if_True if_False simp_thms)
qed

lemma decide_skip:
  "i < length all_total \<Longrightarrow> \<forall>j<i. undecided all_total j \<Longrightarrow>
     decide 0 all_total cur = decide i all_total cur"
proof (induction i)
  case 0
  show ?case by simp
next
  case (Suc i)
  from Suc.prems have "decide 0 all_total cur = decide i all_total cur"
    by (intro Suc.IH) auto
  also from Suc.prems have "\<dots> = decide (i + 1) all_total cur"
    by (intro decide_undecided) auto
  finally show ?case by simp
qed

lemma decide_at:
  assumes "i + 1 < length all_total"
  shows "decide i all_total cur =
     (if rms (all_total ! (i + 1)) - rms (all_total ! i) > 0.5 then Inr (Some (accept (all_total ! i)))
      else if rms (all_total ! (i + 1)) < 3.5 then Inr (Some (accept (all_total ! (i + 1))))
      else decide (i + 1) all_total cur)"
proof -
  from assms(1) have "i \<noteq> length all_total - 1" and "i < length all_total" by arith+
  with assms show ?thesis
    by (subst decide.simps) (simp only: Let_def if_True if_False simp_thms)
qed

lemma decide_last: "i + 1 = length all_total \<Longrightarrow> decide i all_total cur = Inl IndexError"
  by (subst decide.simps) simp

text \<open>
  C2 (amended): the candidates are ordered by ascending absolute difference between the
  observed target count and their ideal coordination number (a stable sort of the list of
  all fits). At each position the walk reaches, that is when no earlier position has
  decided, the classifier accepts the current candidate when the RMS of the next candidate
  exceeds the RMS of the current one by more than 0.5; otherwise, when the RMS of the next
  candidate is below 3.5, it selects the next candidate (its geometry, coordination, RMS
  and exclusions) and stops; otherwise it goes on with the next position.
\<close>

theorem decision_walk:
  assumes "num_targets \<noteq> 1"
    and "i + 1 < length (candidates num_targets angles_dict)"
    and "\<forall>j<i. undecided (candidates num_targets angles_dict) j"
  shows "sorted (map (\<lambda>x. \<bar>diff_targets x\<bar>) (candidates num_targets angles_dict)) \<and>
         mset (candidates num_targets angles_dict) = mset (all_totals num_targets angles_dict) \<and>
         classify num_targets angles_dict =
           (if rms (candidates num_targets angles_dict ! (i + 1)) -
               rms (candidates num_targets angles_dict ! i) > 0.5
            then Inr (Some (accept (candidates num_targets angles_dict ! i)))
            else if rms (candidates num_targets angles_dict ! (i + 1)) < 3.5
            then Inr (Some (accept (candidates num_targets angles_dict ! (i + 1))))
            else decide (i + 1) (candidates num_targets angles_dict) None)"
proof -
  let ?c = "candidates num_targets angles_dict"
  have "sorted (map (\<lambda>x. \<bar>diff_targets x\<bar>) ?c)" and "mset ?c = mset (all_totals num_targets angles_dict)"
    by (simp_all add: candidates_def)
  moreover from assms(2,3) have "decide 0 ?c None = decide i ?c None"
    by (intro decide_skip) auto
  ultimately show ?thesis
    unfolding classify_candidates [OF assms(1)] decide_at [OF assms(2), symmetric] by blast
qed

section \<open>Fits of two small inputs\<close>

lemma lookup_ideal_angles:
  "lookup ideal_angles ''linear'' = [[180], [180]]"
  "lookup ideal_angles ''trigonal.planar'' = [[120, 120], [120, 120], [120, 120]]"
  "lookup ideal_angles ''trigonal.pyramidal'' = [[109.5, 109.5], [109.5, 109.5], [109.5, 109.5]]"
  "lookup ideal_angles ''tetrahedral'' =
     [[109.5, 109.5, 109.5, 109.5], [109.5, 109.5, 109.5, 109.5],
      [109.5, 109.5, 109.5, 109.5], [109.5, 109.5, 109.5, 109.5]]"
  "lookup ideal_angles ''square.planar'' =
     [[90, 90, 90, 90], [90, 90, 90, 90], [90, 90, 90, 90], [90, 90, 90, 90]]"
  "lookup ideal_angles ''trigonal.bipyramidal'' =
     [[120, 120, 90, 90], [120, 120, 90, 90], [120, 120, 90, 90],
      [90, 90, 90, 180], [90, 90, 90, 180]]"
  "lookup ideal_angles ''square.pyramidal'' =
     [[90, 90, 90, 180], [90, 90, 90, 180], [90, 90, 90, 180], [90, 90, 90, 180],
      [90, 90, 90, 90]]"
  "lookup ideal_angles ''octahedral'' =
     [[90, 90, 90, 90, 180], [90, 90, 90, 90, 180], [90, 90, 90, 90, 180],
      [90, 90, 90, 90, 180], [90, 90, 90, 90, 180], [90, 90, 90, 90, 180]]"
  by (simp_all add: lookup_def ideal_angles_def eval_nat_numeral)

lemma sqrt_3600: "sqrt 3600 = 60"
  using real_sqrt_abs [of 60] by simp

lemmas fit_defs = fit_geometry_def best_target_def target_total_def single_target_scores_def
  best_match_def np_mean_def

lemma fit_linear_pair:
  "i \<noteq> j \<Longrightarrow> fit_geometry [(i, [180]), (j, [180])] (lookup ideal_angles ''linear'') = (0, [])"
  by (simp add: lookup_ideal_angles fit_defs)

lemma fit_trigonal_planar_pair:
  "i \<noteq> j \<Longrightarrow>
     fit_geometry [(i, [180]), (j, [180])] (lookup ideal_angles ''trigonal.planar'') = (373, [])"
  by (simp add: lookup_ideal_angles fit_defs sqrt_3600)

lemma length_candidates: "length (candidates n a) = 8"
  by (simp add: candidates_def all_totals_eq)

lemma classify_linear_pair:
  assumes "i \<noteq> j"
  shows "classify 2 [(i, [180]), (j, [180])] =
           Inr (Some \<lparr>final_geom = ''linear'', final_coo = Coo 2, final_rms = 0, final_excluded = []\<rparr>)"
proof -
  let ?a = "[(i, [180 :: real]), (j, [180])]"
  have "classify 2 ?a = decide 0 (candidates 2 ?a) None"
    by (simp add: classify_candidates)
  also have "\<dots> = Inr (Some (accept (candidates 2 ?a ! 0)))"
    using assms
    by (subst decide_at)
       (simp_all add: length_candidates candidates_2 fit_linear_pair fit_trigonal_planar_pair)
  finally show ?thesis
    using assms by (simp add: candidates_2 accept_def fit_linear_pair)
qed

lemma fit_lone_target:
  "fit_geometry [(t, [])] (lookup ideal_angles ''linear'') = (999 / 2, [])"
  "fit_geometry [(t, [])] (lookup ideal_angles ''trigonal.planar'') = (666, [])"
  "fit_geometry [(t, [])] (lookup ideal_angles ''trigonal.pyramidal'') = (666, [])"
  "fit_geometry [(t, [])] (lookup ideal_angles ''tetrahedral'') = (2997 / 4, [])"
  "fit_geometry [(t, [])] (lookup ideal_angles ''square.planar'') = (2997 / 4, [])"
  "fit_geometry [(t, [])] (lookup ideal_angles ''trigonal.bipyramidal'') = (3996 / 5, [])"
  "fit_geometry [(t, [])] (lookup ideal_angles ''square.pyramidal'') = (3996 / 5, [])"
  "fit_geometry [(t, [])] (lookup ideal_angles ''octahedral'') = (4995 / 6, [])"
  by (simp_all add: lookup_ideal_angles fit_defs)

lemma lone_target_undecided: "j < 7 \<Longrightarrow> undecided (candidates 6 [(t, [])]) j"
proof -
  assume "j < 7"
  then consider "j = 0" | "j = 1" | "j = 2" | "j = 3" | "j = 4" | "j = 5" | "j = 6" by arith
  then show ?thesis
    by cases (simp_all add: undecided_def candidates_6 fit_lone_target)
qed

lemma classify_lone_target: "classify 6 [(t, [])] = Inl IndexError"
proof -
  have "classify 6 [(t, [])] = decide 0 (candidates 6 [(t, [])]) None"
    by (simp add: classify_candidates)
  also have "\<dots> = decide 7 (candidates 6 [(t, [])]) None"
    by (rule decide_skip) (simp_all add: length_candidates lone_target_undecided)
  also have "\<dots> = Inl IndexError"
    by (rule decide_last) (simp add: length_candidates)
  finally show ?thesis .
qed

section \<open>The end of the decision walk\<close>

lemma linear_pair_angles:
  "angles_of (vectors_of (metal_m example_metal)
      [(example_target 11 (2, 0, 0), 2), (example_target 12 (- 2, 0, 0), 2)]) =
     [(11, [180]), (12, [180])]"
proof -
  have "vecangle (2, 0, 0) (- 2, 0, 0) = 180" "vecangle (- 2, 0, 0) (2, 0, 0) = 180"
    by (simp_all add: vecangle_opposite)
  then show ?thesis
    by (simp add: angles_of_def vectors_of_def example_metal_def example_target_def example_atom_def)
qed

text \<open>
  C2 (as stated in the specification): the current candidate is accepted exactly when its
  RMS exceeds the RMS of the next candidate by more than 0.5. The code compares the other
  way round (\<open>next_rms - this_rms > 0.5\<close>): for two targets opposite to each other the
  first candidate, linear with RMS 0, is followed by trigonal planar with RMS 373; the RMS
  of the current candidate does not exceed the next one, and the current one is accepted.
\<close>

theorem decision_walk_reversed_counterexample:
  "angles_of (vectors_of (metal_m example_metal)
      [(example_target 11 (2, 0, 0), 2), (example_target 12 (- 2, 0, 0), 2)]) =
     [(11, [180]), (12, [180])] \<and>
   geometry (candidates 2 [(11, [180]), (12, [180])] ! 0) = ''linear'' \<and>
   rms (candidates 2 [(11, [180]), (12, [180])] ! 0) = 0 \<and>
   rms (candidates 2 [(11, [180]), (12, [180])] ! 1) = 373 \<and>
   \<not> rms (candidates 2 [(11, [180]), (12, [180])] ! 0) -
       rms (candidates 2 [(11, [180]), (12, [180])] ! 1) > 0.5 \<and>
   classify 2 [(11, [180]), (12, [180])] =
     Inr (Some (accept (candidates 2 [(11, [180]), (12, [180])] ! 0)))"
  by (simp add: linear_pair_angles classify_linear_pair candidates_2 fit_linear_pair
      fit_trigonal_planar_pair accept_def)

text \<open>
  Two instances of the amended C2: the two opposite targets, decided at position 0, and
  one target listed six times, where the walk reaches position 6 without a decision.
\<close>

theorem decision_walk_witness:
  "sorted (map (\<lambda>x. \<bar>diff_targets x\<bar>) (candidates 2 [(11, [180]), (12, [180])])) \<and>
   classify 2 [(11, [180]), (12, [180])] =
     Inr (Some \<lparr>final_geom = ''linear'', final_coo = Coo 2, final_rms = 0, final_excluded = []\<rparr>) \<and>
   undecided (candidates 6 [(11, [])]) 0 \<and> undecided (candidates 6 [(11, [])]) 5 \<and>
   classify 6 [(11, [])] = decide 7 (candidates 6 [(11, [])]) None"
proof -
  let ?a = "[(11 :: nat, [180 :: real]), (12, [180])]"
  have l: "0 + 1 < length (candidates 2 ?a)" "(2 :: nat) \<noteq> 1"
    by (simp_all add: length_candidates)
  have r: "rms (candidates 2 ?a ! (0 + 1)) - rms (candidates 2 ?a ! 0) > 0.5"
    by (simp add: candidates_2 fit_linear_pair fit_trigonal_planar_pair)
  from decision_walk [OF l(2) l(1)] r
  have "sorted (map (\<lambda>x. \<bar>diff_targets x\<bar>) (candidates 2 ?a)) \<and>
      classify 2 ?a = Inr (Some (accept (candidates 2 ?a ! 0)))"
    by simp
  then have first: "sorted (map (\<lambda>x. \<bar>diff_targets x\<bar>) (candidates 2 ?a)) \<and>
      classify 2 ?a =
        Inr (Some \<lparr>final_geom = ''linear'', final_coo = Coo 2, final_rms = 0, final_excluded = []\<rparr>)"
    by (simp add: candidates_2 accept_def fit_linear_pair)
  let ?b = "[(11 :: nat, [] :: real list)]"
  have m: "6 + 1 < length (candidates 6 ?b)" "(6 :: nat) \<noteq> 1"
    by (simp_all add: length_candidates)
  have u: "\<forall>j<6. undecided (candidates 6 ?b) j"
    by (simp add: lone_target_undecided)
  have "undecided (candidates 6 ?b) 6"
    by (simp add: lone_target_undecided)
  then have n: "\<not> rms (candidates 6 ?b ! (6 + 1)) - rms (candidates 6 ?b ! 6) > 0.5"
    "\<not> rms (candidates 6 ?b ! (6 + 1)) < 3.5"
    by (simp_all add: undecided_def)
  from decision_walk [OF m(2) m(1) u] n
  have "classify 6 ?b = decide 7 (candidates 6 ?b) None"
    by simp
  with first u show ?thesis by simp
qed

lemma walk_exhausted:
  assumes "all_total \<noteq> []" and "\<forall>j. j + 1 < length all_total \<longrightarrow> undecided all_total j"
  shows "decide 0 all_total None = Inl IndexError"
proof -
  from assms(1) have l: "length all_total - 1 < length all_total" by simp
  have "decide 0 all_total None = decide (length all_total - 1) all_total None"
    using l assms(2) by (intro decide_skip) auto
  also from assms(1) have "\<dots> = Inl IndexError"
    by (intro decide_last) (simp add: Suc_leI)
  finally show ?thesis .
qed

lemma decide_accepts_candidate:
  "decide i all_total None = Inr (Some d) \<Longrightarrow> \<exists>k<length all_total. d = accept (all_total ! k)"
proof (induction "length all_total - i" arbitrary: i)
  case 0
  then show ?case by (subst (asm) decide.simps) simp
next
  case (Suc n)
  show ?case
  proof (cases "i + 1 < length all_total")
    case False
    with Suc.prems show ?thesis by (subst (asm) decide.simps) (simp split: if_splits)
  next
    case True
    from Suc.hyps(2) have n: "n = length all_total - (i + 1)" by simp
    note step = Suc.prems [unfolded decide_at [OF True]]
    show ?thesis
    proof (cases "rms (all_total ! (i + 1)) - rms (all_total ! i) > 0.5")
      case True
      with step have "d = accept (all_total ! i)" by simp
      with \<open>i + 1 < length all_total\<close> show ?thesis by (intro exI [of _ i]) simp
    next
      case False
      note far = this
      show ?thesis
      proof (cases "rms (all_total ! (i + 1)) < 3.5")
        case True
        with step far have "d = accept (all_total ! (i + 1))" by simp
        with \<open>i + 1 < length all_total\<close> show ?thesis by (intro exI [of _ "i + 1"]) simp
      next
        case False
        with step far have "decide (i + 1) all_total None = Inr (Some d)" by simp
        from Suc.hyps(1) [OF n this] show ?thesis .
      qed
    qed
  qed
qed

lemma repeated_target_pairings:
  "pairings_of example_config [example_metal] repeated_target =
     ([(metal_m example_metal, replicate 6 (example_target 11 (2, 0, 0), 2))],
      [(metal_m example_metal, 10)])"
  by (simp add: pairings_of_def pairing_step_def example_config_def example_metal_def
      example_target_def example_atom_def repeated_target_def eval_nat_numeral)

lemma repeated_target_angles:
  "angles_of (vectors_of (metal_m example_metal) (replicate 6 (example_target 11 (2, 0, 0), 2))) =
     [(11, [])]"
  by (simp add: angles_of_def vectors_of_def example_target_def example_atom_def eval_nat_numeral)

text \<open>
  C1: the claim is that the classifier ends in the unclassified state when the walk finds
  no candidate to accept. The walk reads \<open>all_total[i + 1]\<close> first, so at the last
  position it raises IndexError before the branch that assigns the unclassified state
  (\<open>walk_exhausted\<close>, \<open>decide_accepts_candidate\<close>). For a metal whose six contact
  pairs are entries of one atom, no position decides and \<open>metal_complexation\<close> raises.
\<close>

theorem metal_complexation_index_error:
  "metal_complexation example_config [example_metal] repeated_target [] = Inl IndexError"
  by (simp add: metal_complexation_def repeated_target_pairings complex_of_def
      repeated_target_angles classify_lone_target)

end
